theory Spec2Isabelle
  imports Main "HOL-Library.Char_ord" "HOL-Library.List_Lexorder" "HOL-Library.Multiset"
    "HOL-Library.Sublist"
begin

section \<open>Soundpad Commander: shortcuts, protocol client and dispatch\<close>

text \<open>
  A shallow embedding of the parts of Soundpad Commander that turn a global hotkey into
  a command on Soundpad's named pipe: the normalisation of key combinations and the
  hotkey registry (\<open>keyboard_listener_keyboard.py\<close>), the shortcut conflict check
  (\<open>config_manager.py\<close>), the pipe client (\<open>soundpad_client.py\<close>) and the
  callbacks of the runtime (\<open>Soundpad-run.py\<close>). The definitions come first, each
  under the name of the Python function it follows; the theorems follow.
\<close>

section \<open>Python strings\<close>

text \<open>
  A Python \<open>str\<close> is modelled as a \<open>string\<close>: a list of characters with code
  points 0 to 255. On that range \<open>str.lower\<close> maps \<open>A\<close> to \<open>Z\<close> and the
  Latin-1 capitals (192 to 222 except the multiplication sign 215) 32 places up and
  leaves every other character alone, and \<open>str.strip()\<close> removes the characters for
  which \<open>str.isspace\<close> holds (9 to 13, 28 to 32, 133 and 160) from both ends.
  Strings are compared as Python compares them: lexicographically by code point, a
  proper prefix being smaller.
\<close>

definition lower_char :: "char \<Rightarrow> char" where
  "lower_char c =
     (let n = (of_char c :: nat)
      in if (65 \<le> n \<and> n \<le> 90) \<or> (192 \<le> n \<and> n \<le> 222 \<and> n \<noteq> 215)
         then char_of (n + 32) else c)"

definition str_lower :: "string \<Rightarrow> string" where
  "str_lower s = map lower_char s"

definition is_space :: "char \<Rightarrow> bool" where
  "is_space c =
     (let n = (of_char c :: nat)
      in (9 \<le> n \<and> n \<le> 13) \<or> (28 \<le> n \<and> n \<le> 32) \<or> n = 133 \<or> n = 160)"

definition str_strip :: "string \<Rightarrow> string" where
  "str_strip s = rev (dropWhile is_space (rev (dropWhile is_space s)))"

text \<open>\<open>d.get(k, default)\<close> on a dictionary literal, kept as an association list.\<close>

definition dict_get :: "('k \<times> 'v) list \<Rightarrow> 'k \<Rightarrow> 'v \<Rightarrow> 'v" where
  "dict_get d k dflt = (case map_of d k of Some v \<Rightarrow> v | None \<Rightarrow> dflt)"

section \<open>keyboard_listener_keyboard.py: normalize_key_combination\<close>

definition key_aliases :: "(string \<times> string) list" where
  "key_aliases =
     [(''control'', ''ctrl''), (''ctrl_l'', ''ctrl''), (''ctrl_r'', ''ctrl''),
      (''alt_l'', ''alt''), (''alt_r'', ''alt''),
      (''shift_l'', ''shift''), (''shift_r'', ''shift''),
      (''cmd_l'', ''cmd''), (''cmd_r'', ''cmd''),
      (''windows'', ''cmd''), (''win'', ''cmd'')]"

definition modifier_order :: "string list" where
  "modifier_order = [''ctrl'', ''alt'', ''shift'', ''cmd'']"

text \<open>The first loop: lower-case, strip, resolve the alias, keep the first occurrence
  of every non-empty key.\<close>

definition normalize_key :: "string \<Rightarrow> string" where
  "normalize_key key = (let k = str_strip (str_lower key) in dict_get key_aliases k k)"

fun normalize_collect :: "string list \<Rightarrow> string list \<Rightarrow> string list" where
  "normalize_collect [] normalized = normalized"
| "normalize_collect (key # keys) normalized =
     (let k = normalize_key key
      in normalize_collect keys
           (if k \<noteq> [] \<and> k \<notin> set normalized then normalized @ [k] else normalized))"

text \<open>The second loop: modifiers (lower-cased) on one side, the other keys on the other.\<close>

fun split_modifiers ::
    "string list \<Rightarrow> string list \<times> string list \<Rightarrow> string list \<times> string list" where
  "split_modifiers [] (modifiers, other_keys) = (modifiers, other_keys)"
| "split_modifiers (key # keys) (modifiers, other_keys) =
     (if str_lower key \<in> set modifier_order
      then split_modifiers keys (modifiers @ [str_lower key], other_keys)
      else split_modifiers keys (modifiers, other_keys @ [key]))"

text \<open>The third loop: the modifiers that occur, in the predefined order.\<close>

definition sort_modifiers :: "string list \<Rightarrow> string list" where
  "sort_modifiers modifiers = filter (\<lambda>m. m \<in> set modifiers) modifier_order"

definition normalize_key_combination :: "string list \<Rightarrow> string list" where
  "normalize_key_combination keys =
     (let normalized = normalize_collect keys [];
          (modifiers, other_keys) = split_modifiers normalized ([], [])
      in sort_modifiers modifiers @ sort other_keys)"

text \<open>A list of keys in the form the first loop produces: no repetition, every key
  non-empty, lower-case and left alone by the per-key step.\<close>

definition canonical_keys :: "string list \<Rightarrow> bool" where
  "canonical_keys N \<longleftrightarrow>
     distinct N \<and> (\<forall>k\<in>set N. normalize_key k = k \<and> k \<noteq> [] \<and> str_lower k = k)"

section \<open>Exceptions\<close>

text \<open>
  A raised exception is a value: its class and its message (\<open>str(e)\<close>). A function
  that may raise returns \<open>exn + 'a\<close>, with \<open>Inl\<close> for the exception, next to
  the state it leaves behind. \<open>FileNotFoundError\<close> and \<open>PermissionError\<close> are
  subclasses of \<open>OSError\<close>, so \<open>except OSError\<close> catches all three.
\<close>

datatype exn_class =
  ValueError | TypeError | AttributeError | UnicodeDecodeError
  | OSError | FileNotFoundError | PermissionError

datatype exn = Exn (cls: exn_class) (msg: string)

definition is_OSError :: "exn \<Rightarrow> bool" where
  "is_OSError e = (cls e = OSError \<or> cls e = FileNotFoundError \<or> cls e = PermissionError)"

text \<open>\<open>sep.join(parts)\<close>.\<close>

fun str_join :: "string \<Rightarrow> string list \<Rightarrow> string" where
  "str_join sep [] = []"
| "str_join sep [x] = x"
| "str_join sep (x # y # ys) = x @ sep @ str_join sep (y # ys)"

section \<open>keyboard_listener_keyboard.py: KeyboardListener\<close>

text \<open>
  The callback of a combination is opaque to the listener, so its type is a parameter
  \<open>'cb\<close>; so is the type \<open>'h\<close> of the handles the keyboard library returns. The
  dictionary \<open>registered_combinations\<close> is an association list in insertion order.
  \<open>keyboard.add_hotkey\<close> belongs to the library: it is the parameter \<open>add_hotkey\<close>,
  which returns the handle or \<open>None\<close> when the library raises (the listener catches
  that and prints). The statistics fields \<open>event_count\<close> and \<open>last_event_time\<close>,
  which no method reads or writes after construction, and the lock are left out: one
  call runs from beginning to end here.
\<close>

record 'cb KeyCombination =
  keys :: "string list"
  callback :: 'cb
  description :: string
  enabled :: bool
  combo_id :: string

record ('cb, 'h) KeyboardListener =
  running :: bool
  suppress_keys :: bool
  registered_combinations :: "(string \<times> 'cb KeyCombination) list"
  hotkey_handlers :: "(string \<times> 'h) list"

definition new_KeyboardListener :: "bool \<Rightarrow> ('cb, 'h) KeyboardListener" where
  "new_KeyboardListener suppress =
     \<lparr>running = False, suppress_keys = suppress,
      registered_combinations = [], hotkey_handlers = []\<rparr>"

text \<open>\<open>_keys_to_hotkey_string\<close>. The branch for function keys and the final branch
  both append the lower-cased, stripped key.\<close>

definition hotkey_part :: "string \<Rightarrow> string" where
  "hotkey_part key =
     (let key_lower = str_strip (str_lower key)
      in if key_lower \<in> set [''ctrl'', ''control''] then ''ctrl''
         else if key_lower = ''alt'' then ''alt''
         else if key_lower = ''shift'' then ''shift''
         else if key_lower \<in> set [''cmd'', ''win'', ''windows''] then ''windows''
         else key_lower)"

definition keys_to_hotkey_string :: "string list \<Rightarrow> string" where
  "keys_to_hotkey_string ks = str_join ''+'' (map hotkey_part ks)"

definition register_hotkey ::
    "(string \<Rightarrow> 'cb \<Rightarrow> bool \<Rightarrow> 'h option) \<Rightarrow> string \<Rightarrow> 'cb
     \<Rightarrow> ('cb, 'h) KeyboardListener \<Rightarrow> ('cb, 'h) KeyboardListener" where
  "register_hotkey add_hotkey hotkey_string cb L =
     (case add_hotkey hotkey_string cb (suppress_keys L) of
        Some handler \<Rightarrow> L\<lparr>hotkey_handlers := hotkey_handlers L @ [(hotkey_string, handler)]\<rparr>
      | None \<Rightarrow> L)"

text \<open>\<open>register_combination\<close>: both \<open>raise\<close> statements come before the first
  assignment to the listener, so the listener returned beside an exception is the one
  passed in.\<close>

definition register_combination ::
    "(string \<Rightarrow> 'cb \<Rightarrow> bool \<Rightarrow> 'h option) \<Rightarrow> string list \<Rightarrow> 'cb \<Rightarrow> string option \<Rightarrow> string
     \<Rightarrow> ('cb, 'h) KeyboardListener \<Rightarrow> (exn + string) \<times> ('cb, 'h) KeyboardListener" where
  "register_combination add_hotkey ks cb combo_id_opt descr L =
     (if ks = [] then (Inl (Exn ValueError ''Key combination cannot be empty''), L)
      else
        let cid = (case combo_id_opt of None \<Rightarrow> str_join ''+'' ks | Some c \<Rightarrow> c);
            hotkey_string = keys_to_hotkey_string ks
        in if cid \<in> fst ` set (registered_combinations L)
           then (Inl (Exn ValueError (''Combination '' @ [CHR 0x27] @ cid @ [CHR 0x27] @
                                       '' is already registered'')), L)
           else
             let combination = \<lparr>keys = ks, callback = cb, description = descr,
                                enabled = True, combo_id = cid\<rparr>;
                 L1 = L\<lparr>registered_combinations :=
                          registered_combinations L @ [(cid, combination)]\<rparr>;
                 L2 = (if running L1 then register_hotkey add_hotkey hotkey_string cb L1 else L1)
             in (Inr cid, L2))"


section \<open>config_manager.py: the shortcut conflict check\<close>

text \<open>
  The configuration is read at the types its dataclasses declare. \<open>config_data\<close>
  keeps its three sections: the categories, a dictionary from name to
  \<open>CategoryConfig\<close> (an association list in insertion order, one entry per name), the
  pause/resume shortcut stored under \<open>shortcuts.stop_playback\<close>, and the
  application settings. The field \<open>enabled\<close> of a category is called
  \<open>cat_enabled\<close> here, the name \<open>enabled\<close> being taken by
  \<open>KeyCombination\<close>.
\<close>

record CategoryConfig =
  soundpad_category_id :: int
  keyboard_shortcut :: "string list"
  folder_path :: string
  cat_enabled :: bool
  sound_count :: int

record AppSettings =
  play_on_speakers :: bool
  play_on_microphone :: bool
  log_level :: string
  show_notifications :: bool
  auto_start_with_windows :: bool

record ConfigManager =
  categories :: "(string \<times> CategoryConfig) list"
  stop_playback :: "string list"
  settings :: AppSettings

definition get_all_categories :: "ConfigManager \<Rightarrow> (string \<times> CategoryConfig) list" where
  "get_all_categories cm = categories cm"

definition get_enabled_categories :: "ConfigManager \<Rightarrow> (string \<times> CategoryConfig) list" where
  "get_enabled_categories cm = filter (\<lambda>(name, config). cat_enabled config) (get_all_categories cm)"

definition get_stop_shortcut :: "ConfigManager \<Rightarrow> string list" where
  "get_stop_shortcut cm = stop_playback cm"

definition get_app_settings :: "ConfigManager \<Rightarrow> AppSettings" where
  "get_app_settings cm = settings cm"

text \<open>\<open>conflicts[k].append(v)\<close> on a \<open>defaultdict(list)\<close>: the value is added to
  the list of an existing key, a new key goes to the end with a one-element list.\<close>

fun dict_append :: "('k \<times> 'v list) list \<Rightarrow> 'k \<Rightarrow> 'v \<Rightarrow> ('k \<times> 'v list) list" where
  "dict_append [] k v = [(k, [v])]"
| "dict_append ((k', vs) # d) k v =
     (if k' = k then (k', vs @ [v]) # d else (k', vs) # dict_append d k v)"

text \<open>The loop over the categories of \<open>get_conflicting_shortcuts\<close>; the key of a
  shortcut is \<open>tuple(sorted(shortcut))\<close>.\<close>

fun collect_category_shortcuts ::
    "(string \<times> CategoryConfig) list \<Rightarrow> (string list \<times> string list) list
     \<Rightarrow> (string list \<times> string list) list" where
  "collect_category_shortcuts [] conflicts = conflicts"
| "collect_category_shortcuts ((name, config) # rest) conflicts =
     collect_category_shortcuts rest
       (if keyboard_shortcut config \<noteq> []
        then dict_append conflicts (sort (keyboard_shortcut config)) (''category:'' @ name)
        else conflicts)"

definition get_conflicting_shortcuts :: "ConfigManager \<Rightarrow> (string list \<times> string list) list" where
  "get_conflicting_shortcuts cm =
     (let conflicts = collect_category_shortcuts (get_all_categories cm) [];
          stop_shortcut = get_stop_shortcut cm;
          conflicts = (if stop_shortcut \<noteq> []
                       then dict_append conflicts (sort stop_shortcut) ''pause_resume''
                       else conflicts)
      in filter (\<lambda>(k, v). length v > 1) conflicts)"

text \<open>
  The claim's words, for comparison with the code: the bindings are the categories and
  the reserved pause/resume binding, each an identifier with its key list; the owners of
  a key list \<open>k\<close> are the identifiers of the bindings whose key list is not empty and
  sorts to \<open>k\<close>, categories first, in configuration order.
\<close>

definition bindings :: "ConfigManager \<Rightarrow> (string \<times> string list) list" where
  "bindings cm =
     map (\<lambda>(name, config). (''category:'' @ name, keyboard_shortcut config)) (categories cm)
     @ [(''pause_resume'', stop_playback cm)]"

definition owners :: "ConfigManager \<Rightarrow> string list \<Rightarrow> string list" where
  "owners cm k = map fst (filter (\<lambda>(ident, ks). ks \<noteq> [] \<and> sort ks = k) (bindings cm))"

text \<open>Two identifiers are reported as conflicting when one entry of the result lists
  both.\<close>

definition reported_together :: "ConfigManager \<Rightarrow> string \<Rightarrow> string \<Rightarrow> bool" where
  "reported_together cm id1 id2 \<longleftrightarrow>
     (\<exists>(k, ids) \<in> set (get_conflicting_shortcuts cm). id1 \<in> set ids \<and> id2 \<in> set ids)"

text \<open>Configurations used as concrete inputs.\<close>

definition example_category :: "int \<Rightarrow> string list \<Rightarrow> CategoryConfig" where
  "example_category n ks =
     \<lparr>soundpad_category_id = n, keyboard_shortcut = ks, folder_path = ''C:/sounds'',
      cat_enabled = True, sound_count = 0\<rparr>"

definition default_settings :: AppSettings where
  "default_settings =
     \<lparr>play_on_speakers = True, play_on_microphone = True, log_level = ''INFO'',
      show_notifications = True, auto_start_with_windows = False\<rparr>"

definition repeated_key_config :: ConfigManager where
  "repeated_key_config =
     \<lparr>categories = [(''A'', example_category 1 [''a'', ''a'']), (''B'', example_category 2 [''a''])],
      stop_playback = [], settings = default_settings\<rparr>"

definition shared_key_config :: ConfigManager where
  "shared_key_config =
     \<lparr>categories = [(''A'', example_category 1 [''ctrl'', ''1'']),
                    (''B'', example_category 2 [''x''])],
      stop_playback = [''1'', ''ctrl''], settings = default_settings\<rparr>"

text \<open>For the proofs: the list a \<open>defaultdict(list)\<close> holds for a key (empty
  when the key is absent), and the shape \<open>dict_append\<close> keeps: one entry per
  key, no empty list.\<close>

definition lookup_list :: "('k \<times> 'v list) list \<Rightarrow> 'k \<Rightarrow> 'v list" where
  "lookup_list d k = (case map_of d k of None \<Rightarrow> [] | Some vs \<Rightarrow> vs)"

definition well_formed :: "('k \<times> 'v list) list \<Rightarrow> bool" where
  "well_formed d \<longleftrightarrow> distinct (map fst d) \<and> [] \<notin> snd ` set d"


section \<open>soundpad_client.py: SoundpadClient\<close>

subsection \<open>The world outside the client\<close>

text \<open>
  The client talks to the named pipe through \<open>os.open\<close>, \<open>os.write\<close>,
  \<open>os.read\<close> and \<open>os.close\<close>. The world is the list of the calls made so far,
  and the operating system answers each call as a function of that history and of the
  call's arguments: it returns a value or raises. An \<open>os_error\<close> carries the class
  Python raises it as, its \<open>errno\<close>, its \<open>strerror\<close> and its text \<open>err_text\<close>
  (\<open>str(e)\<close>). \<open>os.read(fd, n)\<close> returns at most \<open>n\<close> bytes, so the model
  keeps the first \<open>n\<close> of what the environment supplies. The result of
  \<open>os.close\<close> is not needed: the client ignores its failure.

  Two builtins are parameters as well: \<open>bytes.decode('utf-8')\<close>, which returns the
  text or raises \<open>UnicodeDecodeError\<close> with a message (\<open>Inl\<close>), and \<open>int\<close> on
  a string, which returns the number or raises \<open>ValueError\<close> (\<open>None\<close>).

  Left out: what the client prints, and \<open>last_request_timestamp\<close> with the sleep of
  one millisecond it controls; neither has an influence on a result or on the pipe.
\<close>

datatype syscall = Open | Write nat string | Read nat nat | Close nat

type_synonym world = "syscall list"

datatype os_error_class = AsFileNotFoundError | AsPermissionError | AsOSError

record os_error =
  raised_as :: os_error_class
  errno :: int
  strerror :: string
  err_text :: string

datatype 'a os_result = Returns 'a | Raises os_error

record env =
  os_open :: "world \<Rightarrow> nat os_result"
  os_write :: "world \<Rightarrow> nat \<Rightarrow> string \<Rightarrow> nat os_result"
  os_read :: "world \<Rightarrow> nat \<Rightarrow> nat \<Rightarrow> string os_result"
  decode_utf8 :: "string \<Rightarrow> string + string"
  to_int :: "string \<Rightarrow> int option"

definition os_exn :: "os_error \<Rightarrow> exn" where
  "os_exn e =
     Exn (case raised_as e of
            AsFileNotFoundError \<Rightarrow> FileNotFoundError
          | AsPermissionError \<Rightarrow> PermissionError
          | AsOSError \<Rightarrow> OSError)
         (err_text e)"

subsection \<open>Formatting and string tests\<close>

text \<open>\<open>str(n)\<close> for an integer, \<open>str(b)\<close> for a boolean, \<open>s.startswith(p)\<close>,
  \<open>p in s\<close>, \<open>s.rstrip('\0')\<close> and \<open>s.encode('utf-8')\<close> on code points below
  256.\<close>

fun str_nat :: "nat \<Rightarrow> string" where
  "str_nat n = (if n < 10 then [char_of (48 + n)]
                else str_nat (n div 10) @ [char_of (48 + n mod 10)])"

declare str_nat.simps [simp del]

definition str_int :: "int \<Rightarrow> string" where
  "str_int i = (if i < 0 then CHR ''-'' # str_nat (nat (- i)) else str_nat (nat i))"

definition str_bool :: "bool \<Rightarrow> string" where
  "str_bool b = (if b then ''True'' else ''False'')"

definition startswith :: "string \<Rightarrow> string \<Rightarrow> bool" where
  "startswith s p = (take (length p) s = p)"


definition rstrip_nul :: "string \<Rightarrow> string" where
  "rstrip_nul s = rev (dropWhile (\<lambda>c. c = CHR 0x00) (rev s))"

definition encode_char :: "char \<Rightarrow> string" where
  "encode_char c =
     (let n = (of_char c :: nat)
      in if n < 128 then [c] else [char_of (192 + n div 64), char_of (128 + n mod 64)])"

definition encode_utf8 :: "string \<Rightarrow> string" where
  "encode_utf8 s = concat (map encode_char s)"

subsection \<open>Opening, closing and one exchange\<close>

record SoundpadClient =
  print_errors :: bool
  pipe :: "nat option"

definition new_SoundpadClient :: "bool \<Rightarrow> SoundpadClient" where
  "new_SoundpadClient pe = \<lparr>print_errors = pe, pipe = None\<rparr>"

text \<open>The \<open>except\<close> clauses of \<open>init\<close>, in their order.\<close>

definition init_error :: "os_error \<Rightarrow> exn" where
  "init_error e =
     (case raised_as e of
        AsFileNotFoundError \<Rightarrow>
          Exn FileNotFoundError
            ''Cannot connect to Soundpad. Make sure Soundpad is running and the remote control interface is enabled.''
      | AsPermissionError \<Rightarrow>
          Exn PermissionError
            ''Permission denied accessing Soundpad pipe. Try running as administrator or check Windows security settings.''
      | AsOSError \<Rightarrow>
          if errno e = 2 then
            Exn FileNotFoundError
              ''Soundpad named pipe not found. Ensure Soundpad is running and remote control is enabled.''
          else if errno e = 13 then
            Exn PermissionError
              (''Access denied to Soundpad pipe. Error code: '' @ str_int (errno e) @
               ''. Try running as administrator.'')
          else if errno e = 32 then
            Exn OSError
              ''Soundpad pipe is busy. Another application may be using the remote control interface.''
          else
            Exn OSError
              (''Failed to open Soundpad pipe. Windows error code: '' @ str_int (errno e) @
               ''. '' @ strerror e))"

definition init :: "env \<Rightarrow> SoundpadClient \<times> world \<Rightarrow> (exn + unit) \<times> SoundpadClient \<times> world" where
  "init env cw =
     (case cw of (c, w) \<Rightarrow>
        if pipe c = None then
          (case os_open env w of
             Returns fd \<Rightarrow> (Inr (), c\<lparr>pipe := Some fd\<rparr>, w @ [Open])
           | Raises e \<Rightarrow> (Inl (init_error e), c, w @ [Open]))
        else (Inr (), c, w))"

definition uninit :: "SoundpadClient \<times> world \<Rightarrow> SoundpadClient \<times> world" where
  "uninit cw =
     (case cw of (c, w) \<Rightarrow>
        (case pipe c of
           Some fd \<Rightarrow> (c\<lparr>pipe := None\<rparr>, w @ [Close fd])
         | None \<Rightarrow> (c, w)))"

text \<open>The body of the \<open>try\<close> of \<open>send_request\<close>. It runs after \<open>init\<close> has
  returned, so the pipe is set; \<open>os.write\<close> on \<open>None\<close> would raise
  \<open>TypeError\<close>.\<close>

definition exchange ::
    "env \<Rightarrow> string \<Rightarrow> SoundpadClient \<times> world \<Rightarrow> (exn + string) \<times> SoundpadClient \<times> world" where
  "exchange env request cw =
     (case cw of (c, w) \<Rightarrow>
        (case pipe c of
           None \<Rightarrow> (Inl (Exn TypeError ''an integer is required''), c, w)
         | Some fd \<Rightarrow>
             (let request_bytes = encode_utf8 request;
                  w1 = w @ [Write fd request_bytes]
              in (case os_write env w fd request_bytes of
                    Raises e \<Rightarrow> (Inl (os_exn e), c, w1)
                  | Returns written \<Rightarrow>
                      (let w2 = w1 @ [Read fd 1]
                       in (case os_read env w1 fd 1 of
                             Raises e \<Rightarrow> (Inl (os_exn e), c, w2)
                           | Returns d1 \<Rightarrow>
                               (let first_byte = take 1 d1
                                in if first_byte = []
                                   then (Inl (Exn OSError ''No response from Soundpad''), c, w2)
                                   else
                                     (let w3 = w2 @ [Read fd 8192]
                                      in (case os_read env w2 fd 8192 of
                                            Raises e \<Rightarrow> (Inl (os_exn e), c, w3)
                                          | Returns d2 \<Rightarrow>
                                              (let remaining_data = take 8192 d2;
                                                   response_bytes = first_byte @ remaining_data
                                               in (case decode_utf8 env response_bytes of
                                                     Inl m \<Rightarrow>
                                                       (Inl (Exn UnicodeDecodeError m), c, w3)
                                                   | Inr s \<Rightarrow>
                                                       (Inr (rstrip_nul s), c, w3))))))))))))"

definition send_request ::
    "env \<Rightarrow> string \<Rightarrow> SoundpadClient \<times> world \<Rightarrow> (exn + string) \<times> SoundpadClient \<times> world" where
  "send_request env request cw =
     (case init env cw of
        (Inl e, cw1) \<Rightarrow> (Inl e, cw1)
      | (Inr u, cw1) \<Rightarrow>
          (case exchange env request cw1 of
             (Inl e, cw2) \<Rightarrow>
               if is_OSError e
               then (Inl (Exn OSError (''Failed to communicate with Soundpad: '' @ msg e)),
                     uninit cw2)
               else (Inl e, cw2)
           | (Inr response, cw2) \<Rightarrow> (Inr response, cw2)))"

definition send_request_safe ::
    "env \<Rightarrow> string \<Rightarrow> SoundpadClient \<times> world \<Rightarrow> (exn + string) \<times> SoundpadClient \<times> world" where
  "send_request_safe env request cw =
     (case send_request env request cw of
        (Inl e, cw1) \<Rightarrow> if is_OSError e then (Inr [], uninit cw1) else (Inl e, cw1)
      | (Inr response, cw1) \<Rightarrow> (Inr response, cw1))"


subsection \<open>Reading a response\<close>

definition is_success :: "string \<Rightarrow> bool" where
  "is_success response = startswith response ''R-200''"



text \<open>\<open>_handle_numeric_response\<close>: the three failures return the sentinel
  \<open>-1\<close>. The message \<open>_handle_error_response\<close> builds in the second one is
  only printed.\<close>

definition handle_numeric_response ::
    "env \<Rightarrow> string \<Rightarrow> SoundpadClient \<times> world \<Rightarrow> (exn + int) \<times> SoundpadClient \<times> world" where
  "handle_numeric_response env request cw =
     (case send_request_safe env request cw of
        (Inl e, cw1) \<Rightarrow> (Inl e, cw1)
      | (Inr response, cw1) \<Rightarrow>
          (if response = [] then (Inr (- 1), cw1)
           else if startswith response ''R'' then (Inr (- 1), cw1)
           else (case to_int env response of
                   Some n \<Rightarrow> (Inr n, cw1)
                 | None \<Rightarrow> (Inr (- 1), cw1))))"

definition get_volume ::
    "env \<Rightarrow> SoundpadClient \<times> world \<Rightarrow> (exn + int) \<times> SoundpadClient \<times> world" where
  "get_volume env cw =
     (case handle_numeric_response env ''GetVolume()'' cw of
        (Inl e, cw1) \<Rightarrow> (Inl e, cw1)
      | (Inr n, cw1) \<Rightarrow> (Inr (max 0 n), cw1))"

subsection \<open>Commands\<close>

text \<open>A command that answers with a status line: send the request, report whether the
  response is a success.\<close>

definition send_command ::
    "env \<Rightarrow> string \<Rightarrow> SoundpadClient \<times> world \<Rightarrow> (exn + bool) \<times> SoundpadClient \<times> world" where
  "send_command env request cw =
     (case send_request_safe env request cw of
        (Inl e, cw1) \<Rightarrow> (Inl e, cw1)
      | (Inr response, cw1) \<Rightarrow> (Inr (is_success response), cw1))"

definition play_random_request :: "int \<Rightarrow> bool \<Rightarrow> bool \<Rightarrow> string" where
  "play_random_request category_index speakers microphone =
     ''DoPlayRandomSoundFromCategory('' @ str_int category_index @ '', '' @
     str_lower (str_bool speakers) @ '', '' @ str_lower (str_bool microphone) @ '')''"

definition play_random_sound_from_category ::
    "env \<Rightarrow> int \<Rightarrow> bool \<Rightarrow> bool \<Rightarrow> SoundpadClient \<times> world
     \<Rightarrow> (exn + bool) \<times> SoundpadClient \<times> world" where
  "play_random_sound_from_category env category_index speakers microphone cw =
     send_command env (play_random_request category_index speakers microphone) cw"

definition toggle_pause ::
    "env \<Rightarrow> SoundpadClient \<times> world \<Rightarrow> (exn + bool) \<times> SoundpadClient \<times> world" where
  "toggle_pause env cw = send_command env ''DoTogglePause()'' cw"

definition is_alive ::
    "env \<Rightarrow> SoundpadClient \<times> world \<Rightarrow> (exn + bool) \<times> SoundpadClient \<times> world" where
  "is_alive env cw = send_command env ''IsAlive()'' cw"

datatype PlayStatus = STOPPED | PLAYING | PAUSED | SEEKING

definition PlayStatus_of :: "string \<Rightarrow> PlayStatus option" where
  "PlayStatus_of s =
     (if s = ''STOPPED'' then Some STOPPED
      else if s = ''PLAYING'' then Some PLAYING
      else if s = ''PAUSED'' then Some PAUSED
      else if s = ''SEEKING'' then Some SEEKING
      else None)"

definition get_play_status ::
    "env \<Rightarrow> SoundpadClient \<times> world \<Rightarrow> (exn + PlayStatus) \<times> SoundpadClient \<times> world" where
  "get_play_status env cw =
     (case send_request_safe env ''GetPlayStatus()'' cw of
        (Inl e, cw1) \<Rightarrow> (Inl e, cw1)
      | (Inr response, cw1) \<Rightarrow>
          (if startswith response ''R'' then (Inr STOPPED, cw1)
           else (case PlayStatus_of response of
                   Some status \<Rightarrow> (Inr status, cw1)
                 | None \<Rightarrow> (Inr STOPPED, cw1))))"

subsection \<open>Environments used as concrete inputs\<close>

text \<open>
  \<open>ascii_decode\<close> is UTF-8 decoding on bytes below 128 and raises on any other
  byte; \<open>plain_decimal\<close> reads a non-empty string of digits. They stand for the two
  builtins at the ASCII inputs used below, where they agree with them.
\<close>

definition ascii_decode :: "string \<Rightarrow> string + string" where
  "ascii_decode bs =
     (if list_all (\<lambda>c. (of_char c :: nat) < 128) bs then Inr bs
      else Inl ''codec cannot decode byte'')"

definition is_digit :: "char \<Rightarrow> bool" where
  "is_digit c = (48 \<le> (of_char c :: nat) \<and> (of_char c :: nat) \<le> 57)"

definition plain_decimal :: "string \<Rightarrow> int option" where
  "plain_decimal s =
     (if s \<noteq> [] \<and> list_all is_digit s
      then Some (foldl (\<lambda>acc c. 10 * acc + (int (of_char c) - 48)) 0 s)
      else None)"

text \<open>A pipe that opens as descriptor 3 and answers every request with \<open>reply\<close>:
  the first byte on the read of one byte, the rest on the following read.\<close>

definition answering :: "string \<Rightarrow> env" where
  "answering reply =
     \<lparr>os_open = (\<lambda>w. Returns 3),
      os_write = (\<lambda>w fd bs. Returns (length bs)),
      os_read = (\<lambda>w fd n. Returns (if n = 1 then take 1 reply else drop 1 reply)),
      decode_utf8 = ascii_decode,
      to_int = plain_decimal\<rparr>"

text \<open>Soundpad is not running: the pipe does not exist.\<close>

definition no_such_file :: os_error where
  "no_such_file =
     \<lparr>raised_as = AsFileNotFoundError, errno = 2, strerror = ''No such file or directory'',
      err_text = ''[Errno 2] No such file or directory''\<rparr>"

definition absent_pipe :: env where
  "absent_pipe = (answering ''R-200'')\<lparr>os_open := (\<lambda>w. Raises no_such_file)\<rparr>"


definition is_Write :: "syscall \<Rightarrow> bool" where
  "is_Write s = (case s of Write fd bs \<Rightarrow> True | _ \<Rightarrow> False)"



definition fresh_client :: "SoundpadClient \<times> world" where
  "fresh_client = (new_SoundpadClient True, [])"


section \<open>Soundpad-run.py: SoundpadRuntime, the hotkey callbacks\<close>

text \<open>
  The runtime keeps the configuration manager and the client (each \<open>None\<close> until
  it is created), the cached liveness flag \<open>soundpad_connected\<close>, the action log
  and the statistics. A log entry is kept without its timestamp, which is read from the
  wall clock; the statistics are kept without \<open>start_time\<close>. The console, the
  listener and the counters the callbacks do not touch are left out. A callback runs on
  the runtime and the world and returns both; its result type has room for an exception,
  so that "no exception leaves the callback" is a statement about the result.
\<close>

record ActionLog =
  action :: string
  category :: "string option"
  success :: bool
  details :: string

record Stats =
  sounds_played :: int
  pauses_triggered :: int
  errors :: int
  last_action :: "string option"

record SoundpadRuntime =
  config_manager :: "ConfigManager option"
  soundpad_client :: "SoundpadClient option"
  soundpad_connected :: bool
  action_log :: "ActionLog list"
  stats :: Stats

definition log_action ::
    "string \<Rightarrow> string option \<Rightarrow> bool \<Rightarrow> string \<Rightarrow> SoundpadRuntime \<Rightarrow> SoundpadRuntime" where
  "log_action act cat ok det rt =
     (let log_entry = \<lparr>action = act, category = cat, success = ok, details = det\<rparr>;
          appended = action_log rt @ [log_entry]
      in rt\<lparr>action_log := (if length appended > 50
                            then drop (length appended - 50) appended
                            else appended)\<rparr>)"

definition quoted :: "string \<Rightarrow> string" where
  "quoted s = [CHR 0x27] @ s @ [CHR 0x27]"

text \<open>The \<open>try\<close> block of the category callback. \<open>self.config_manager\<close> being
  \<open>None\<close> would raise \<open>AttributeError\<close> there.\<close>

definition category_try ::
    "env \<Rightarrow> string \<Rightarrow> CategoryConfig \<Rightarrow> SoundpadClient \<Rightarrow> SoundpadRuntime \<times> world
     \<Rightarrow> (exn + unit) \<times> SoundpadRuntime \<times> world" where
  "category_try env category_name config client rw =
     (case rw of (rt, w) \<Rightarrow>
        (case config_manager rt of
           None \<Rightarrow>
             (Inl (Exn AttributeError
                    (quoted ''NoneType'' @ '' object has no attribute '' @
                     quoted ''get_app_settings'')), rt, w)
         | Some cm \<Rightarrow>
             (let app_settings = get_app_settings cm
              in (case play_random_sound_from_category env (soundpad_category_id config)
                         (play_on_speakers app_settings) (play_on_microphone app_settings)
                         (client, w) of
                    (Inl e, client1, w1) \<Rightarrow> (Inl e, rt\<lparr>soundpad_client := Some client1\<rparr>, w1)
                  | (Inr ok, client1, w1) \<Rightarrow>
                      (let rt1 = rt\<lparr>soundpad_client := Some client1\<rparr>
                       in if ok
                          then (Inr (),
                                log_action ''play_sound'' (Some category_name) True []
                                  (rt1\<lparr>stats := (stats rt1)
                                          \<lparr>sounds_played := sounds_played (stats rt1) + 1,
                                           last_action :=
                                             Some (''Played from '' @ quoted category_name)\<rparr>\<rparr>),
                                w1)
                          else (Inr (),
                                log_action ''play_failed'' (Some category_name) False
                                  ''Soundpad command failed''
                                  (rt1\<lparr>stats := (stats rt1)\<lparr>errors := errors (stats rt1) + 1\<rparr>\<rparr>),
                                w1))))))"

text \<open>The callback \<open>create_category_callback\<close> returns: the debug entry, the gate on
  the client and the cached flag, then the \<open>try\<close> block with its \<open>except
  Exception\<close> handler.\<close>

definition category_callback ::
    "env \<Rightarrow> string \<Rightarrow> CategoryConfig \<Rightarrow> SoundpadRuntime \<times> world
     \<Rightarrow> (exn + unit) \<times> SoundpadRuntime \<times> world" where
  "category_callback env category_name config rw =
     (case rw of (rt0, w) \<Rightarrow>
        (let rt = log_action ''debug'' (Some category_name) True
                    (''Shortcut triggered for '' @ quoted category_name) rt0
         in (case soundpad_client rt of
               None \<Rightarrow>
                 (Inr (), log_action ''play_failed'' (Some category_name) False
                            ''Not connected to Soundpad'' rt, w)
             | Some client \<Rightarrow>
                 if \<not> soundpad_connected rt
                 then (Inr (), log_action ''play_failed'' (Some category_name) False
                                 ''Not connected to Soundpad'' rt, w)
                 else
                   (case category_try env category_name config client (rt, w) of
                      (Inl e, rt1, w1) \<Rightarrow>
                        (Inr (),
                         log_action ''play_failed'' (Some category_name) False (msg e)
                           (rt1\<lparr>stats := (stats rt1)\<lparr>errors := errors (stats rt1) + 1\<rparr>\<rparr>),
                         w1)
                    | (Inr u, rt1, w1) \<Rightarrow> (Inr (), rt1, w1)))))"

text \<open>The \<open>try\<close> block of the pause/resume callback: the status is read before the
  toggle and names the action.\<close>

definition pause_try ::
    "env \<Rightarrow> SoundpadClient \<Rightarrow> SoundpadRuntime \<times> world
     \<Rightarrow> (exn + unit) \<times> SoundpadRuntime \<times> world" where
  "pause_try env client rw =
     (case rw of (rt, w) \<Rightarrow>
        (case get_play_status env (client, w) of
           (Inl e, client1, w1) \<Rightarrow> (Inl e, rt\<lparr>soundpad_client := Some client1\<rparr>, w1)
         | (Inr current_status, client1, w1) \<Rightarrow>
             (case toggle_pause env (client1, w1) of
                (Inl e, client2, w2) \<Rightarrow> (Inl e, rt\<lparr>soundpad_client := Some client2\<rparr>, w2)
              | (Inr ok, client2, w2) \<Rightarrow>
                  (let rt1 = rt\<lparr>soundpad_client := Some client2\<rparr>
                   in if ok
                      then
                        (let rt2 = rt1\<lparr>stats := (stats rt1)
                                     \<lparr>pauses_triggered := pauses_triggered (stats rt1) + 1\<rparr>\<rparr>
                         in if current_status = PLAYING
                            then (Inr (),
                                  log_action ''pause_sound'' None True []
                                    (rt2\<lparr>stats := (stats rt2)\<lparr>last_action := Some ''Paused sound''\<rparr>\<rparr>),
                                  w2)
                            else if current_status = PAUSED
                            then (Inr (),
                                  log_action ''resume_sound'' None True []
                                    (rt2\<lparr>stats := (stats rt2)\<lparr>last_action := Some ''Resumed sound''\<rparr>\<rparr>),
                                  w2)
                            else (Inr (),
                                  log_action ''toggle_pause'' None True []
                                    (rt2\<lparr>stats := (stats rt2)
                                            \<lparr>last_action := Some ''Toggled pause/resume''\<rparr>\<rparr>),
                                  w2))
                      else (Inr (),
                            log_action ''pause_failed'' None False ''Soundpad command failed''
                              (rt1\<lparr>stats := (stats rt1)\<lparr>errors := errors (stats rt1) + 1\<rparr>\<rparr>),
                            w2)))))"

definition pause_callback ::
    "env \<Rightarrow> SoundpadRuntime \<times> world \<Rightarrow> (exn + unit) \<times> SoundpadRuntime \<times> world" where
  "pause_callback env rw =
     (case rw of (rt0, w) \<Rightarrow>
        (let rt = log_action ''debug'' None True ''Pause/resume shortcut triggered'' rt0
         in (case soundpad_client rt of
               None \<Rightarrow>
                 (Inr (), log_action ''pause_failed'' None False ''Not connected to Soundpad'' rt, w)
             | Some client \<Rightarrow>
                 if \<not> soundpad_connected rt
                 then (Inr (), log_action ''pause_failed'' None False
                                 ''Not connected to Soundpad'' rt, w)
                 else
                   (case pause_try env client (rt, w) of
                      (Inl e, rt1, w1) \<Rightarrow>
                        (Inr (),
                         log_action ''pause_failed'' None False (msg e)
                           (rt1\<lparr>stats := (stats rt1)\<lparr>errors := errors (stats rt1) + 1\<rparr>\<rparr>),
                         w1)
                    | (Inr u, rt1, w1) \<Rightarrow> (Inr (), rt1, w1)))))"

text \<open>Runtimes used as concrete inputs: a runtime whose client holds the open pipe,
  with the cached flag as given, and the category bound to Soundpad's category 5.\<close>

definition example_config :: ConfigManager where
  "example_config =
     \<lparr>categories = [(''Laughs'', example_category 5 [''alt'', ''1''])],
      stop_playback = [''alt'', ''p''], settings = default_settings\<rparr>"

definition example_runtime :: "bool \<Rightarrow> SoundpadRuntime" where
  "example_runtime connected =
     \<lparr>config_manager = Some example_config,
      soundpad_client = Some \<lparr>print_errors = True, pipe = Some 3\<rparr>,
      soundpad_connected = connected,
      action_log = [],
      stats = \<lparr>sounds_played = 0, pauses_triggered = 0, errors = 0, last_action = None\<rparr>\<rparr>"


section \<open>Two callers of send_request on one client\<close>

text \<open>
  The runtime shares one \<open>SoundpadClient\<close> between the threads that fire hotkey
  callbacks and the loop that probes liveness. \<open>send_request\<close> takes no lock - the
  class holds none - so a second caller can run between any two statements of the
  first. The model cuts \<open>send_request\<close> at its calls of the operating system, where
  Python releases the interpreter lock: a caller is at one of the program points below,
  and a step runs it up to and including its next OS call, on the pipe field and the
  world it shares with the other callers. Every schedule of these steps is an execution
  the code allows.

  \<^item> \<open>AtInit\<close>: before \<open>self.init()\<close>;
  \<^item> \<open>AtWrite\<close>: before \<open>os.write(self.pipe, request_bytes)\<close>;
  \<^item> \<open>AtRead1\<close>: before \<open>os.read(self.pipe, 1)\<close>;
  \<^item> \<open>AtRead2 first_byte\<close>: before \<open>os.read(self.pipe, 8192)\<close>;
  \<^item> \<open>Failing e\<close>: in the handler \<open>except OSError as e\<close>, before \<open>self.uninit()\<close>;
  \<^item> \<open>Finished r\<close>: returned a response or raised.
\<close>

datatype pc = AtInit | AtWrite | AtRead1 | AtRead2 string | Failing exn | Finished "exn + string"

definition step :: "env \<Rightarrow> string \<Rightarrow> pc \<times> SoundpadClient \<times> world \<Rightarrow> pc \<times> SoundpadClient \<times> world" where
  "step env request s =
     (case s of (p, c, w) \<Rightarrow>
        (case p of
           AtInit \<Rightarrow>
             (case init env (c, w) of
                (Inl e, c1, w1) \<Rightarrow> (Finished (Inl e), c1, w1)
              | (Inr u, c1, w1) \<Rightarrow> (AtWrite, c1, w1))
         | AtWrite \<Rightarrow>
             (case pipe c of
                None \<Rightarrow> (Finished (Inl (Exn TypeError ''an integer is required'')), c, w)
              | Some fd \<Rightarrow>
                  (let request_bytes = encode_utf8 request;
                       w1 = w @ [Write fd request_bytes]
                   in (case os_write env w fd request_bytes of
                         Raises e \<Rightarrow> (Failing (os_exn e), c, w1)
                       | Returns written \<Rightarrow> (AtRead1, c, w1))))
         | AtRead1 \<Rightarrow>
             (case pipe c of
                None \<Rightarrow> (Finished (Inl (Exn TypeError ''an integer is required'')), c, w)
              | Some fd \<Rightarrow>
                  (let w1 = w @ [Read fd 1]
                   in (case os_read env w fd 1 of
                         Raises e \<Rightarrow> (Failing (os_exn e), c, w1)
                       | Returns d1 \<Rightarrow>
                           (let first_byte = take 1 d1
                            in if first_byte = []
                               then (Failing (Exn OSError ''No response from Soundpad''), c, w1)
                               else (AtRead2 first_byte, c, w1)))))
         | AtRead2 first_byte \<Rightarrow>
             (case pipe c of
                None \<Rightarrow> (Finished (Inl (Exn TypeError ''an integer is required'')), c, w)
              | Some fd \<Rightarrow>
                  (let w1 = w @ [Read fd 8192]
                   in (case os_read env w fd 8192 of
                         Raises e \<Rightarrow> (Failing (os_exn e), c, w1)
                       | Returns d2 \<Rightarrow>
                           (let remaining_data = take 8192 d2;
                                response_bytes = first_byte @ remaining_data
                            in (case decode_utf8 env response_bytes of
                                  Inl m \<Rightarrow> (Finished (Inl (Exn UnicodeDecodeError m)), c, w1)
                                | Inr t \<Rightarrow> (Finished (Inr (rstrip_nul t)), c, w1))))))
         | Failing e \<Rightarrow>
             (case uninit (c, w) of
                (c1, w1) \<Rightarrow>
                  (Finished (Inl (Exn OSError (''Failed to communicate with Soundpad: '' @ msg e))),
                   c1, w1))
         | Finished r \<Rightarrow> (Finished r, c, w)))"










section \<open>Normalisation is idempotent\<close>

lemma of_char_lower_char:
  "(of_char (lower_char c) :: nat) =
     (let n = of_char c in if (65 \<le> n \<and> n \<le> 90) \<or> (192 \<le> n \<and> n \<le> 222 \<and> n \<noteq> 215) then n + 32 else n)"
  by (auto simp: lower_char_def Let_def)

lemma lower_char_idem: "lower_char (lower_char c) = lower_char c"
proof -
  have "(of_char (lower_char (lower_char c)) :: nat) = of_char (lower_char c)"
    by (simp add: of_char_lower_char Let_def)
  then show ?thesis by simp
qed

lemma is_space_lower_char: "is_space (lower_char c) = is_space c"
  by (simp add: is_space_def of_char_lower_char Let_def) 

lemma str_lower_idem: "str_lower (str_lower s) = str_lower s"
  by (simp add: str_lower_def lower_char_idem)

lemma last_dropWhile_same: "dropWhile P xs \<noteq> [] \<Longrightarrow> last (dropWhile P xs) = last xs"
  by (induction xs) (auto split: if_splits)

lemma dropWhile_rev_dropWhile_rev:
  "dropWhile P (rev (dropWhile P (rev (dropWhile P s)))) = rev (dropWhile P (rev (dropWhile P s)))"
proof (cases "dropWhile P (rev (dropWhile P s)) = []")
  case True
  then show ?thesis by (simp only: rev.simps dropWhile.simps)
next
  case False
  let ?a = "dropWhile P s"
  let ?b = "dropWhile P (rev ?a)"
  have a: "?a \<noteq> []"
  proof
    assume "?a = []"
    then have "?b = []" by (simp only: rev.simps dropWhile.simps)
    with False show False by simp
  qed
  have "hd (rev ?b) = last ?b" using False by (simp add: hd_rev)
  also have "\<dots> = last (rev ?a)" using False by (rule last_dropWhile_same)
  also have "\<dots> = hd ?a" using a by (simp add: last_rev)
  finally have "\<not> P (hd (rev ?b))" using a hd_dropWhile [of P s] by simp
  with False show ?thesis by (cases "rev ?b") auto
qed

lemma str_strip_idem: "str_strip (str_strip s) = str_strip s"
  by (simp add: str_strip_def dropWhile_rev_dropWhile_rev)

lemma str_lower_strip: "str_lower (str_strip s) = str_strip (str_lower s)"
proof -
  have "is_space \<circ> lower_char = is_space"
    by (rule ext) (simp add: is_space_lower_char)
  then show ?thesis
    by (simp add: str_lower_def str_strip_def rev_map dropWhile_map)
qed

lemma strip_lower_fixed: "str_strip (str_lower (str_strip (str_lower s))) = str_strip (str_lower s)"
  by (simp add: str_lower_strip str_lower_idem str_strip_idem)

lemma lower_strip_lower: "str_lower (str_strip (str_lower s)) = str_strip (str_lower s)"
  by (simp add: str_lower_strip str_lower_idem)


lemma alias_values:
  "map_of key_aliases s = Some v \<Longrightarrow> v \<in> {''ctrl'', ''alt'', ''shift'', ''cmd''}"
  by (drule map_of_SomeD) (auto simp: key_aliases_def)

lemma normalize_key_modifier:
  "v \<in> {''ctrl'', ''alt'', ''shift'', ''cmd''} \<Longrightarrow> normalize_key v = v \<and> str_lower v = v \<and> v \<noteq> []"
  by (elim insertE emptyE; hypsubst; code_simp)

lemma normalize_key_idem: "normalize_key (normalize_key k) = normalize_key k"
proof (cases "map_of key_aliases (str_strip (str_lower k))")
  case None
  then show ?thesis
    by (simp add: normalize_key_def dict_get_def Let_def strip_lower_fixed)
next
  case (Some v)
  then have "normalize_key k = v" by (simp add: normalize_key_def dict_get_def Let_def)
  with alias_values [OF Some] normalize_key_modifier [of v] show ?thesis by simp
qed

lemma normalize_key_lower: "str_lower (normalize_key k) = normalize_key k"
proof (cases "map_of key_aliases (str_strip (str_lower k))")
  case None
  then show ?thesis
    by (simp add: normalize_key_def dict_get_def Let_def lower_strip_lower)
next
  case (Some v)
  then have "normalize_key k = v" by (simp add: normalize_key_def dict_get_def Let_def)
  with alias_values [OF Some] normalize_key_modifier [of v] show ?thesis by simp
qed

lemma set_normalize_collect:
  "set (normalize_collect ks acc) = set acc \<union> (normalize_key ` set ks - {[]})"
  by (induction ks arbitrary: acc) (auto simp: Let_def)

lemma distinct_normalize_collect:
  "distinct acc \<Longrightarrow> distinct (normalize_collect ks acc)"
  by (induction ks arbitrary: acc) (auto simp: Let_def)

lemma normalize_collect_fixed:
  "\<lbrakk>\<forall>k\<in>set ks. normalize_key k = k \<and> k \<noteq> []; distinct (acc @ ks)\<rbrakk>
   \<Longrightarrow> normalize_collect ks acc = acc @ ks"
  by (induction ks arbitrary: acc) (auto simp: Let_def)

lemma split_modifiers_filter:
  "split_modifiers ks (ms, os) =
     (ms @ map str_lower (filter (\<lambda>k. str_lower k \<in> set modifier_order) ks),
      os @ filter (\<lambda>k. str_lower k \<notin> set modifier_order) ks)"
  by (induction ks arbitrary: ms os) auto



lemma canonical_normalize_collect: "canonical_keys (normalize_collect ks [])"
  unfolding canonical_keys_def
proof (intro conjI ballI)
  show "distinct (normalize_collect ks [])"
    by (rule distinct_normalize_collect) simp
next
  fix k assume "k \<in> set (normalize_collect ks [])"
  then obtain x where k: "k = normalize_key x" and ne: "k \<noteq> []"
    by (auto simp: set_normalize_collect)
  show "normalize_key k = k" by (simp add: k normalize_key_idem)
  show "k \<noteq> []" by (rule ne)
  show "str_lower k = k" by (simp add: k normalize_key_lower)
qed

lemma normalize_shape:
  assumes "canonical_keys N"
  shows "(let (modifiers, other_keys) = split_modifiers N ([], [])
          in sort_modifiers modifiers @ sort other_keys) =
         sort_modifiers (filter (\<lambda>k. k \<in> set modifier_order) N) @
         sort (filter (\<lambda>k. k \<notin> set modifier_order) N)"
proof -
  have low: "\<forall>k\<in>set N. str_lower k = k" using assms by (simp add: canonical_keys_def)
  have f1: "filter (\<lambda>k. str_lower k \<in> set modifier_order) N = filter (\<lambda>k. k \<in> set modifier_order) N"
    using low by (intro filter_cong) auto
  have f2: "filter (\<lambda>k. str_lower k \<notin> set modifier_order) N = filter (\<lambda>k. k \<notin> set modifier_order) N"
    using low by (intro filter_cong) auto
  have m: "map str_lower (filter (\<lambda>k. k \<in> set modifier_order) N) = filter (\<lambda>k. k \<in> set modifier_order) N"
    using low by (intro map_idI) auto
  show ?thesis by (simp add: split_modifiers_filter f1 f2 m)
qed

lemma canonical_result:
  assumes "canonical_keys N"
  shows "canonical_keys (sort_modifiers (filter (\<lambda>k. k \<in> set modifier_order) N) @
                         sort (filter (\<lambda>k. k \<notin> set modifier_order) N))"
  using assms
  by (auto simp: canonical_keys_def sort_modifiers_def modifier_order_def)

lemma result_fixed:
  assumes "canonical_keys N"
  defines "R \<equiv> sort_modifiers (filter (\<lambda>k. k \<in> set modifier_order) N) @
                sort (filter (\<lambda>k. k \<notin> set modifier_order) N)"
  shows "sort_modifiers (filter (\<lambda>k. k \<in> set modifier_order) R) @
         sort (filter (\<lambda>k. k \<notin> set modifier_order) R) = R"
proof -
  have a: "filter (\<lambda>k. k \<in> set modifier_order) R =
           sort_modifiers (filter (\<lambda>k. k \<in> set modifier_order) N)"
    by (auto simp: R_def sort_modifiers_def filter_empty_conv intro!: filter_True)
  have b: "filter (\<lambda>k. k \<notin> set modifier_order) R = sort (filter (\<lambda>k. k \<notin> set modifier_order) N)"
    by (auto simp: R_def sort_modifiers_def filter_empty_conv intro!: filter_True)
  have c: "sort_modifiers (sort_modifiers ms) = sort_modifiers ms" for ms
    by (auto simp: sort_modifiers_def intro!: filter_cong)
  show ?thesis unfolding a b c by (simp add: R_def sorted_sort_id)
qed

text \<open>
  C7. Normalising a key combination is idempotent: applying
  \<open>normalize_key_combination\<close> to its own result returns that result unchanged.
  This holds for every list of key names, so in particular for every list of one to
  four valid key tokens.
\<close>

theorem normalize_key_combination_idempotent:
  "normalize_key_combination (normalize_key_combination ks) = normalize_key_combination ks"
proof -
  let ?N = "normalize_collect ks []"
  let ?R = "sort_modifiers (filter (\<lambda>k. k \<in> set modifier_order) ?N) @
            sort (filter (\<lambda>k. k \<notin> set modifier_order) ?N)"
  have cn: "canonical_keys ?N" by (rule canonical_normalize_collect)
  have r: "normalize_key_combination ks = ?R"
    unfolding normalize_key_combination_def Let_def using normalize_shape [OF cn] by (simp add: Let_def)
  have cr: "canonical_keys ?R" by (rule canonical_result [OF cn])
  have nr: "normalize_collect ?R [] = ?R"
    using cr normalize_collect_fixed [of ?R "[]"] by (simp add: canonical_keys_def)
  have "normalize_key_combination ?R = ?R"
    unfolding normalize_key_combination_def Let_def nr
    using normalize_shape [OF cr] result_fixed [OF cn] by (simp add: Let_def)
  with r show ?thesis by simp
qed

section \<open>Registering a combination\<close>

text \<open>
  C8. Once \<open>register_combination\<close> has stored a binding under an id, a second call
  with the same id raises \<open>ValueError\<close> (the id is already registered, or the keys
  are empty) and returns the listener exactly as it was; that listener holds one binding
  under the id, the first one. An empty key combination is rejected with
  \<open>ValueError\<close> on any listener, which is left unchanged.
\<close>

theorem register_combination_duplicate_id:
  assumes "register_combination add_hotkey ks cb cid_opt descr L = (Inr r, L1)"
  shows "register_combination add_hotkey2 ks2 cb2 (Some r) descr2 L1 =
           (Inl (Exn ValueError
                  (if ks2 = [] then ''Key combination cannot be empty''
                   else ''Combination '' @ [CHR 0x27] @ r @ [CHR 0x27] @ '' is already registered'')),
            L1)
         \<and> filter (\<lambda>p. fst p = r) (registered_combinations L1) =
             [(r, \<lparr>keys = ks, callback = cb, description = descr, enabled = True, combo_id = r\<rparr>)]
         \<and> register_combination add_hotkey2 [] cb2 cid_opt2 descr2 L2 =
             (Inl (Exn ValueError ''Key combination cannot be empty''), L2)"
proof -
  let ?cid = "case cid_opt of None \<Rightarrow> str_join ''+'' ks | Some c \<Rightarrow> c"
  from assms have ks: "ks \<noteq> []" and fresh: "?cid \<notin> fst ` set (registered_combinations L)"
    by (auto simp: register_combination_def Let_def split: if_splits)
  from assms ks fresh have r: "r = ?cid"
    by (simp add: register_combination_def Let_def)
  from assms ks fresh have regs:
    "registered_combinations L1 = registered_combinations L @
       [(r, \<lparr>keys = ks, callback = cb, description = descr, enabled = True, combo_id = r\<rparr>)]"
    by (auto simp: register_combination_def Let_def register_hotkey_def split: if_splits option.splits)
  have none: "filter (\<lambda>p. fst p = r) (registered_combinations L) = []"
    using fresh r by (force simp: filter_empty_conv image_iff)
  have a: "register_combination add_hotkey2 ks2 cb2 (Some r) descr2 L1 =
           (Inl (Exn ValueError
                  (if ks2 = [] then ''Key combination cannot be empty''
                   else ''Combination '' @ [CHR 0x27] @ r @ [CHR 0x27] @ '' is already registered'')),
            L1)"
    by (simp add: register_combination_def Let_def regs)
  have b: "filter (\<lambda>p. fst p = r) (registered_combinations L1) =
             [(r, \<lparr>keys = ks, callback = cb, description = descr, enabled = True, combo_id = r\<rparr>)]"
    by (simp add: regs none)
  have c: "register_combination add_hotkey2 [] cb2 cid_opt2 descr2 L2 =
             (Inl (Exn ValueError ''Key combination cannot be empty''), L2)"
    by (simp add: register_combination_def)
  from a b c show ?thesis by simp
qed

theorem register_combination_duplicate_id_witness:
  "register_combination (\<lambda>s c b. Some (7::nat)) [''alt'', ''1''] (0::nat) (Some ''category_A'') ''Play''
       (new_KeyboardListener False)
     = (Inr ''category_A'',
        \<lparr>running = False, suppress_keys = False,
         registered_combinations =
           [(''category_A'', \<lparr>keys = [''alt'', ''1''], callback = 0, description = ''Play'',
                              enabled = True, combo_id = ''category_A''\<rparr>)],
         hotkey_handlers = []\<rparr>)
   \<and> fst (register_combination (\<lambda>s c b. Some (7::nat)) [''alt'', ''2''] (1::nat) (Some ''category_A'') ''Other''
        \<lparr>running = False, suppress_keys = False,
         registered_combinations =
           [(''category_A'', \<lparr>keys = [''alt'', ''1''], callback = 0, description = ''Play'',
                              enabled = True, combo_id = ''category_A''\<rparr>)],
         hotkey_handlers = []\<rparr>)
     = Inl (Exn ValueError ''Combination 'category_A' is already registered'')"
proof -
  have h: "register_combination (\<lambda>s c b. Some (7::nat)) [''alt'', ''1''] (0::nat) (Some ''category_A'') ''Play''
       (new_KeyboardListener False)
     = (Inr ''category_A'',
        \<lparr>running = False, suppress_keys = False,
         registered_combinations =
           [(''category_A'', \<lparr>keys = [''alt'', ''1''], callback = 0, description = ''Play'',
                              enabled = True, combo_id = ''category_A''\<rparr>)],
         hotkey_handlers = []\<rparr>)"
    by (simp add: register_combination_def new_KeyboardListener_def Let_def)
  show ?thesis
    using h register_combination_duplicate_id [OF h, of "\<lambda>s c b. Some (7::nat)" "[''alt'', ''2'']" 1 "''Other''"]
    by simp
qed

section \<open>The conflict check\<close>


lemma lookup_dict_append:
  "lookup_list (dict_append d k v) k' =
     (if k' = k then lookup_list d k @ [v] else lookup_list d k')"
  unfolding lookup_list_def
  by (induction d k v rule: dict_append.induct) auto

lemma keys_dict_append: "fst ` set (dict_append d k v) = insert k (fst ` set d)"
  by (induction d k v rule: dict_append.induct) auto

lemma distinct_dict_append:
  "distinct (map fst d) \<Longrightarrow> distinct (map fst (dict_append d k v))"
proof (induction d k v rule: dict_append.induct)
  case (1 k v)
  then show ?case by simp
next
  case (2 k' vs d k v)
  then show ?case using keys_dict_append [of d k v] by auto
qed

lemma nonempty_dict_append:
  "[] \<notin> snd ` set d \<Longrightarrow> [] \<notin> snd ` set (dict_append d k v)"
  by (induction d k v rule: dict_append.induct) auto


lemma well_formed_dict_append: "well_formed d \<Longrightarrow> well_formed (dict_append d k v)"
  by (simp add: well_formed_def distinct_dict_append nonempty_dict_append)

lemma well_formed_collect:
  "well_formed d \<Longrightarrow> well_formed (collect_category_shortcuts cats d)"
  by (induction cats d rule: collect_category_shortcuts.induct) (auto simp: well_formed_dict_append)

lemma lookup_collect:
  "lookup_list (collect_category_shortcuts cats d) k =
     lookup_list d k @
     map fst (filter (\<lambda>(ident, ks). ks \<noteq> [] \<and> sort ks = k)
                (map (\<lambda>(name, config). (''category:'' @ name, keyboard_shortcut config)) cats))"
  by (induction cats d rule: collect_category_shortcuts.induct) (auto simp: lookup_dict_append)

lemma map_of_filter_values:
  "distinct (map fst d) \<Longrightarrow>
   map_of (filter (\<lambda>(k, v). Q v) d) k =
     (case map_of d k of None \<Rightarrow> None | Some v \<Rightarrow> if Q v then Some v else None)"
proof (induction d)
  case Nil
  then show ?case by simp
next
  case (Cons p d)
  obtain k' v' where p: "p = (k', v')" by (cases p)
  from Cons.prems p have notin: "k' \<notin> fst ` set d" by auto
  then have "map_of d k' = None" by (simp add: map_of_eq_None_iff)
  with Cons p show ?case by (auto split: option.splits)
qed

lemma well_formed_lookup:
  "well_formed d \<Longrightarrow> map_of d k = (if lookup_list d k = [] then None else Some (lookup_list d k))"
  unfolding well_formed_def lookup_list_def
  by (force split: option.splits dest!: map_of_SomeD)

lemma conflicts_before_filter:
  fixes cm
  defines "c \<equiv> (let conflicts = collect_category_shortcuts (get_all_categories cm) [];
                     stop_shortcut = get_stop_shortcut cm
                 in if stop_shortcut \<noteq> []
                    then dict_append conflicts (sort stop_shortcut) ''pause_resume''
                    else conflicts)"
  shows "well_formed c \<and> lookup_list c k = owners cm k"
proof
  have wf0: "well_formed ([] :: (string list \<times> string list) list)" by (simp add: well_formed_def)
  show "well_formed c"
    unfolding c_def Let_def
    by (simp add: well_formed_collect [OF wf0] well_formed_dict_append)
  show "lookup_list c k = owners cm k"
    unfolding c_def Let_def
    by (simp add: lookup_dict_append lookup_collect owners_def bindings_def
        get_all_categories_def get_stop_shortcut_def lookup_list_def [of "[]"])
qed

lemma conflicts_exact:
  "map_of (get_conflicting_shortcuts cm) k =
     (if length (owners cm k) > 1 then Some (owners cm k) else None)"
proof -
  let ?c = "(let conflicts = collect_category_shortcuts (get_all_categories cm) [];
                     stop_shortcut = get_stop_shortcut cm
                 in if stop_shortcut \<noteq> []
                    then dict_append conflicts (sort stop_shortcut) ''pause_resume''
                    else conflicts)"
  have wf: "well_formed ?c" and lk: "lookup_list ?c k = owners cm k"
    using conflicts_before_filter [of cm k] by simp_all
  have g: "get_conflicting_shortcuts cm = filter (\<lambda>(k, v). length v > 1) ?c"
    by (simp add: get_conflicting_shortcuts_def Let_def)
  from wf have d: "distinct (map fst ?c)" by (simp add: well_formed_def)
  show ?thesis
    unfolding g map_of_filter_values [OF d, of "\<lambda>v. length v > 1"] well_formed_lookup [OF wf] lk
    by auto
qed

lemma distinct_conflicts: "distinct (map fst (get_conflicting_shortcuts cm))"
proof -
  let ?c = "(let conflicts = collect_category_shortcuts (get_all_categories cm) [];
                     stop_shortcut = get_stop_shortcut cm
                 in if stop_shortcut \<noteq> []
                    then dict_append conflicts (sort stop_shortcut) ''pause_resume''
                    else conflicts)"
  have wf: "well_formed ?c" using conflicts_before_filter [of cm undefined] by simp
  have g: "get_conflicting_shortcuts cm = filter (\<lambda>(k, v). length v > 1) ?c"
    by (simp add: get_conflicting_shortcuts_def Let_def)
  from wf have d: "distinct (map fst ?c)" by (simp add: well_formed_def)
  then show ?thesis unfolding g by (rule distinct_map_filter)
qed

lemma distinct_binding_ids:
  assumes "distinct (map fst (categories cm))"
  shows "distinct (map fst (bindings cm))"
  using assms
  by (auto simp: bindings_def distinct_map inj_on_def case_prod_beta comp_def)

lemma owner_has_binding:
  "ident \<in> set (owners cm k) \<longleftrightarrow> (\<exists>ks. (ident, ks) \<in> set (bindings cm) \<and> ks \<noteq> [] \<and> sort ks = k)"
  by (force simp: owners_def)

lemma two_members_length: "a \<in> set xs \<Longrightarrow> b \<in> set xs \<Longrightarrow> a \<noteq> b \<Longrightarrow> length xs > 1"
  by (cases xs; cases "tl xs") auto

lemma reported_iff:
  assumes names: "distinct (map fst (categories cm))"
    and b1: "(id1, ks1) \<in> set (bindings cm)" and b2: "(id2, ks2) \<in> set (bindings cm)"
    and ne: "id1 \<noteq> id2"
  shows "reported_together cm id1 id2 \<longleftrightarrow> ks1 \<noteq> [] \<and> ks2 \<noteq> [] \<and> sort ks1 = sort ks2"
proof
  assume "reported_together cm id1 id2"
  then obtain k ids where in_r: "(k, ids) \<in> set (get_conflicting_shortcuts cm)"
      and i1: "id1 \<in> set ids" and i2: "id2 \<in> set ids"
    by (auto simp: reported_together_def)
  from in_r distinct_conflicts [of cm] have "map_of (get_conflicting_shortcuts cm) k = Some ids"
    by simp
  then have ids: "ids = owners cm k" by (simp add: conflicts_exact split: if_splits)
  from i1 ids obtain ks where k1: "(id1, ks) \<in> set (bindings cm)" "ks \<noteq> []" "sort ks = k"
    by (auto simp: owner_has_binding)
  from i2 ids obtain ks' where k2: "(id2, ks') \<in> set (bindings cm)" "ks' \<noteq> []" "sort ks' = k"
    by (auto simp: owner_has_binding)
  have d: "distinct (map fst (bindings cm))" by (rule distinct_binding_ids [OF names])
  from d k1(1) b1 have "ks = ks1" by (rule eq_key_imp_eq_value)
  moreover from d k2(1) b2 have "ks' = ks2" by (rule eq_key_imp_eq_value)
  ultimately show "ks1 \<noteq> [] \<and> ks2 \<noteq> [] \<and> sort ks1 = sort ks2" using k1 k2 by simp
next
  assume a: "ks1 \<noteq> [] \<and> ks2 \<noteq> [] \<and> sort ks1 = sort ks2"
  let ?k = "sort ks1"
  from a b1 have o1: "id1 \<in> set (owners cm ?k)" by (auto simp: owner_has_binding)
  from a b2 have o2: "id2 \<in> set (owners cm ?k)" by (auto simp: owner_has_binding)
  from o1 o2 ne have "length (owners cm ?k) > 1" by (rule two_members_length)
  then have "map_of (get_conflicting_shortcuts cm) ?k = Some (owners cm ?k)"
    by (simp add: conflicts_exact)
  then have "(?k, owners cm ?k) \<in> set (get_conflicting_shortcuts cm)" by (rule map_of_SomeD)
  with o1 o2 show "reported_together cm id1 id2" by (auto simp: reported_together_def)
qed

lemma sort_eq_iff_mset: "sort xs = sort ys \<longleftrightarrow> mset xs = mset ys"
proof
  assume "sort xs = sort ys"
  then have "mset (sort xs) = mset (sort ys)" by simp
  then show "mset xs = mset ys" by simp
next
  assume "mset xs = mset ys"
  then show "sort xs = sort ys" by (simp add: properties_for_sort)
qed

text \<open>
  C6 (amended). \<open>get_conflicting_shortcuts\<close> depends on the configuration only. Its
  result has one entry per key: a key \<open>k\<close> is present exactly when more than one
  binding (categories, enabled or not, and the reserved pause/resume binding) has a
  non-empty key list that sorts to \<open>k\<close>, and it is mapped to the identifiers of those
  bindings. Two different bindings are reported together exactly when their key lists are
  non-empty and equal after sorting, that is, hold the same tokens the same number of
  times in any order.
\<close>

theorem get_conflicting_shortcuts_sorted_equal:
  "map_of (get_conflicting_shortcuts cm) k =
     (if length (owners cm k) > 1 then Some (owners cm k) else None)
   \<and> distinct (map fst (get_conflicting_shortcuts cm))
   \<and> (distinct (map fst (categories cm)) \<longrightarrow>
        (id1, ks1) \<in> set (bindings cm) \<longrightarrow> (id2, ks2) \<in> set (bindings cm) \<longrightarrow> id1 \<noteq> id2 \<longrightarrow>
        (reported_together cm id1 id2 \<longleftrightarrow> ks1 \<noteq> [] \<and> ks2 \<noteq> [] \<and> mset ks1 = mset ks2))"
  using conflicts_exact [of cm k] distinct_conflicts [of cm]
    reported_iff [of cm id1 ks1 id2 ks2] sort_eq_iff_mset [of ks1 ks2]
  by simp

theorem get_conflicting_shortcuts_sorted_equal_witness:
  "distinct (map fst (categories shared_key_config))
   \<and> (''category:A'', [''ctrl'', ''1'']) \<in> set (bindings shared_key_config)
   \<and> (''pause_resume'', [''1'', ''ctrl'']) \<in> set (bindings shared_key_config)
   \<and> ''category:A'' \<noteq> ''pause_resume''
   \<and> reported_together shared_key_config ''category:A'' ''pause_resume''
   \<and> map_of (get_conflicting_shortcuts shared_key_config) [''1'', ''ctrl''] =
       Some [''category:A'', ''pause_resume'']"
proof -
  have h1: "distinct (map fst (categories shared_key_config))" by code_simp
  have h2: "(''category:A'', [''ctrl'', ''1'']) \<in> set (bindings shared_key_config)" by code_simp
  have h3: "(''pause_resume'', [''1'', ''ctrl'']) \<in> set (bindings shared_key_config)" by code_simp
  have h4: "''category:A'' \<noteq> ''pause_resume''" by simp
  have o: "owners shared_key_config [''1'', ''ctrl''] = [''category:A'', ''pause_resume'']" by code_simp
  have m: "mset [''ctrl'', ''1''] = mset [''1'', ''ctrl'']" by simp
  show ?thesis
    using h1 h2 h3 h4 o m
      get_conflicting_shortcuts_sorted_equal [of shared_key_config "[''1'', ''ctrl'']"
        "''category:A''" "[''ctrl'', ''1'']" "''pause_resume''" "[''1'', ''ctrl'']"]
    by simp
qed

text \<open>
  C6 as stated fails: the key lists \<open>[a, a]\<close> and \<open>[a]\<close> of two categories are
  equal as sets, yet the check reports nothing, because it compares the sorted lists.
\<close>

theorem set_equal_not_reported_counterexample:
  "set (keyboard_shortcut (example_category 1 [''a'', ''a''])) =
     set (keyboard_shortcut (example_category 2 [''a'']))
   \<and> get_conflicting_shortcuts repeated_key_config = []
   \<and> \<not> reported_together repeated_key_config ''category:A'' ''category:B''"
  by code_simp

section \<open>The protocol client\<close>

lemma is_OSError_os_exn: "is_OSError (os_exn e)"
  by (simp add: os_exn_def is_OSError_def split: os_error_class.splits)

lemma is_OSError_init_error: "is_OSError (init_error e)"
  by (simp add: init_error_def is_OSError_def split: os_error_class.splits)

lemma is_OSError_Exn:
  "is_OSError (Exn k m) \<longleftrightarrow> k = OSError \<or> k = FileNotFoundError \<or> k = PermissionError"
  by (simp add: is_OSError_def)

lemma init_cases:
  "init env (c, w) =
     (case pipe c of
        Some fd \<Rightarrow> (Inr (), c, w)
      | None \<Rightarrow> (case os_open env w of
                   Returns fd \<Rightarrow> (Inr (), c\<lparr>pipe := Some fd\<rparr>, w @ [Open])
                 | Raises e \<Rightarrow> (Inl (init_error e), c, w @ [Open])))"
  by (simp add: init_def split: option.splits)

lemma init_Inr_pipe: "init env cw = (Inr u, c1, w1) \<Longrightarrow> \<exists>fd. pipe c1 = Some fd"
  by (cases cw) (auto simp: init_cases split: option.splits os_result.splits)

lemma init_Inl: "init env cw = (Inl e, cw1) \<Longrightarrow> is_OSError e \<and> pipe (fst cw1) = None"
  by (cases cw) (auto simp: init_cases is_OSError_init_error split: option.splits os_result.splits)

lemma exchange_client: "fst (snd (exchange env request cw)) = fst cw"
  by (cases cw)
     (simp add: exchange_def Let_def split: option.splits os_result.splits sum.splits)

lemma exchange_Inl:
  "pipe (fst cw) = Some fd \<Longrightarrow> fst (exchange env request cw) = Inl e
   \<Longrightarrow> is_OSError e \<or> cls e = UnicodeDecodeError"
  by (cases cw)
     (auto simp: exchange_def Let_def is_OSError_os_exn is_OSError_Exn
           split: option.splits os_result.splits sum.splits if_splits)

lemma exchange_world:
  "pipe (fst cw) = Some fd \<Longrightarrow>
   \<exists>rest. snd (snd (exchange env request cw)) = snd cw @ Write fd (encode_utf8 request) # rest
          \<and> list_all (\<lambda>s. s = Read fd 1 \<or> s = Read fd 8192) rest"
  by (cases cw)
     (simp add: exchange_def Let_def split: option.splits os_result.splits sum.splits)

lemma uninit_pipe: "pipe (fst (uninit cw)) = None"
  by (cases cw) (simp add: uninit_def split: option.splits)

lemma uninit_closed: "pipe (fst cw) = None \<Longrightarrow> uninit cw = cw"
  by (cases cw) (simp add: uninit_def)

lemma uninit_open: "pipe c = Some fd \<Longrightarrow> uninit (c, w) = (c\<lparr>pipe := None\<rparr>, w @ [Close fd])"
  by (simp add: uninit_def)

lemma send_request_Inl_OSError:
  "send_request env request cw = (Inl e, cw1) \<Longrightarrow> is_OSError e \<Longrightarrow> pipe (fst cw1) = None"
  by (auto simp: send_request_def uninit_pipe split: prod.splits sum.splits if_splits dest: init_Inl)

lemma send_request_Inl:
  "send_request env request cw = (Inl e, cw1) \<Longrightarrow> is_OSError e \<or> cls e = UnicodeDecodeError"
proof -
  assume a: "send_request env request cw = (Inl e, cw1)"
  obtain r0 c0 w0 where i: "init env cw = (r0, c0, w0)" by (cases "init env cw") auto
  show ?thesis
  proof (cases r0)
    case (Inl e0)
    with a i show ?thesis using init_Inl [of env cw e0 "(c0, w0)"]
      by (simp add: send_request_def)
  next
    case (Inr u)
    with i obtain fd where fd: "pipe c0 = Some fd" using init_Inr_pipe by blast
    obtain r2 cw2 where x: "exchange env request (c0, w0) = (r2, cw2)"
      by (cases "exchange env request (c0, w0)") auto
    show ?thesis
    proof (cases r2)
      case (Inl e2)
      with x fd have "is_OSError e2 \<or> cls e2 = UnicodeDecodeError"
        using exchange_Inl [of "(c0, w0)" fd env request e2] by simp
      with a i Inr x Inl show ?thesis
        by (auto simp: send_request_def is_OSError_Exn split: if_splits)
    next
      case (Inr resp)
      with a i \<open>r0 = Inr u\<close> x show ?thesis by (simp add: send_request_def)
    qed
  qed
qed

lemma send_request_safe_Inl:
  "fst (send_request_safe env request cw) = Inl e \<Longrightarrow> cls e = UnicodeDecodeError"
proof -
  assume a: "fst (send_request_safe env request cw) = Inl e"
  obtain r1 cw1 where s: "send_request env request cw = (r1, cw1)"
    by (cases "send_request env request cw") auto
  show ?thesis
  proof (cases r1)
    case (Inl e1)
    with s have "is_OSError e1 \<or> cls e1 = UnicodeDecodeError" using send_request_Inl by blast
    with a s Inl show ?thesis by (auto simp: send_request_safe_def split: if_splits)
  next
    case (Inr resp)
    with a s show ?thesis by (simp add: send_request_safe_def)
  qed
qed

lemma send_request_safe_absorbs:
  "send_request env request cw = (Inl e, cw1) \<Longrightarrow> is_OSError e \<Longrightarrow>
   send_request_safe env request cw = (Inr [], cw1)"
  using send_request_Inl_OSError [of env request cw e cw1]
  by (simp add: send_request_safe_def uninit_closed)





lemma exchange_raises_iff:
  assumes "pipe c = Some fd"
  shows "(\<exists>e. fst (exchange env request (c, w)) = Inl e \<and> is_OSError e) \<longleftrightarrow>
         (case os_write env w fd (encode_utf8 request) of
            Raises e \<Rightarrow> True
          | Returns n \<Rightarrow>
              (case os_read env (w @ [Write fd (encode_utf8 request)]) fd 1 of
                 Raises e \<Rightarrow> True
               | Returns d1 \<Rightarrow>
                   take 1 d1 = [] \<or>
                   (case os_read env (w @ [Write fd (encode_utf8 request), Read fd 1]) fd 8192 of
                      Raises e \<Rightarrow> True
                    | Returns d2 \<Rightarrow> False)))"
  using assms
  by (auto simp: exchange_def Let_def is_OSError_os_exn is_OSError_Exn
           split: os_result.splits sum.splits)



section \<open>Classifying a response\<close>

lemma startswith_take:
  "startswith r p \<Longrightarrow> length q \<le> length p \<Longrightarrow> take (length q) r = take (length q) p"
proof -
  assume a: "startswith r p" and b: "length q \<le> length p"
  have "take (length q) r = take (length q) (take (length p) r)" using b by (simp add: min_def)
  with a show ?thesis by (simp add: startswith_def)
qed







section \<open>Channel faults and the safe wrapper\<close>

lemma not_OSError_decode: "cls e = UnicodeDecodeError \<Longrightarrow> \<not> is_OSError e"
  by (simp add: is_OSError_def)

lemma send_command_Inl: "fst (send_command env request cw) = Inl e \<Longrightarrow> cls e = UnicodeDecodeError"
  using send_request_safe_Inl [of env request cw e]
  by (auto simp: send_command_def split: prod.splits sum.splits)

lemma handle_numeric_response_Inl:
  "fst (handle_numeric_response env request cw) = Inl e \<Longrightarrow> cls e = UnicodeDecodeError"
  using send_request_safe_Inl [of env request cw e]
  by (auto simp: handle_numeric_response_def split: prod.splits sum.splits if_splits option.splits)

lemma get_play_status_Inl:
  "fst (get_play_status env cw) = Inl e \<Longrightarrow> cls e = UnicodeDecodeError"
  using send_request_safe_Inl [of env "''GetPlayStatus()''" cw e]
  by (auto simp: get_play_status_def split: prod.splits sum.splits if_splits option.splits)

lemma send_request_open_raises:
  assumes "pipe (fst cw) = None" "os_open env (snd cw) = Raises oe"
  shows "send_request env request cw = (Inl (init_error oe), fst cw, snd cw @ [Open])"
  using assms by (cases cw) (simp add: send_request_def init_cases)

lemma send_request_exchange_raises:
  assumes "init env cw = (Inr u, cw2)" "fst (exchange env request cw2) = Inl e2" "is_OSError e2"
  shows "fst (send_request env request cw) =
           Inl (Exn OSError (''Failed to communicate with Soundpad: '' @ msg e2))"
  using assms by (auto simp: send_request_def split: prod.splits sum.splits)

text \<open>
  C2 (amended). \<open>init\<close> and \<open>send_request\<close> raise to their caller, as their
  docstrings say: an open that fails raises \<open>FileNotFoundError\<close>,
  \<open>PermissionError\<close> or \<open>OSError\<close>, and a failed write, a failed read or an empty
  first read raises \<open>OSError\<close>. For every request and every behaviour of the
  channel, \<open>send_request_safe\<close> turns each of these into the empty string, with the
  pipe closed, and no exception of the \<open>OSError\<close> family crosses
  \<open>send_request_safe\<close> or the operations built on it (the status-line commands, the
  numeric queries, \<open>get_play_status\<close>).
\<close>

theorem channel_faults_absorbed_by_send_request_safe:
  "(send_request env request cw = (Inl e, cw1) \<longrightarrow> is_OSError e \<longrightarrow>
      send_request_safe env request cw = (Inr [], cw1) \<and> pipe (fst cw1) = None)
   \<and> (pipe (fst cw) = None \<longrightarrow> os_open env (snd cw) = Raises oe \<longrightarrow>
        is_OSError (init_error oe) \<and> fst (send_request env request cw) = Inl (init_error oe))
   \<and> (init env cw = (Inr u, cw2) \<longrightarrow> fst (exchange env request cw2) = Inl e2 \<longrightarrow> is_OSError e2 \<longrightarrow>
        fst (send_request env request cw) =
          Inl (Exn OSError (''Failed to communicate with Soundpad: '' @ msg e2)))
   \<and> (fst (send_request_safe env request cw) = Inl x \<longrightarrow> \<not> is_OSError x)
   \<and> (fst (send_command env request cw) = Inl x \<longrightarrow> \<not> is_OSError x)
   \<and> (fst (handle_numeric_response env request cw) = Inl x \<longrightarrow> \<not> is_OSError x)
   \<and> (fst (get_play_status env cw) = Inl x \<longrightarrow> \<not> is_OSError x)"
proof -
  have a: "send_request env request cw = (Inl e, cw1) \<longrightarrow> is_OSError e \<longrightarrow>
      send_request_safe env request cw = (Inr [], cw1) \<and> pipe (fst cw1) = None"
    using send_request_safe_absorbs [of env request cw e cw1]
      send_request_Inl_OSError [of env request cw e cw1] by blast
  have b: "pipe (fst cw) = None \<longrightarrow> os_open env (snd cw) = Raises oe \<longrightarrow>
        is_OSError (init_error oe) \<and> fst (send_request env request cw) = Inl (init_error oe)"
    using send_request_open_raises [of cw env oe request] is_OSError_init_error [of oe] by simp
  have c: "init env cw = (Inr u, cw2) \<longrightarrow> fst (exchange env request cw2) = Inl e2 \<longrightarrow> is_OSError e2 \<longrightarrow>
        fst (send_request env request cw) =
          Inl (Exn OSError (''Failed to communicate with Soundpad: '' @ msg e2))"
    using send_request_exchange_raises [of env cw u cw2 request e2] by blast
  have d: "fst (send_request_safe env request cw) = Inl x \<longrightarrow> \<not> is_OSError x"
    using send_request_safe_Inl [of env request cw x] not_OSError_decode by blast
  have e: "fst (send_command env request cw) = Inl x \<longrightarrow> \<not> is_OSError x"
    using send_command_Inl [of env request cw x] not_OSError_decode by blast
  have f: "fst (handle_numeric_response env request cw) = Inl x \<longrightarrow> \<not> is_OSError x"
    using handle_numeric_response_Inl [of env request cw x] not_OSError_decode by blast
  have g: "fst (get_play_status env cw) = Inl x \<longrightarrow> \<not> is_OSError x"
    using get_play_status_Inl [of env cw x] not_OSError_decode by blast
  from a b c d e f g show ?thesis by blast
qed

theorem channel_faults_absorbed_by_send_request_safe_witness:
  "send_request absent_pipe ''IsAlive()'' fresh_client =
     (Inl (init_error no_such_file), \<lparr>print_errors = True, pipe = None\<rparr>, [Open])
   \<and> is_OSError (init_error no_such_file)
   \<and> pipe (fst fresh_client) = None \<and> os_open absent_pipe (snd fresh_client) = Raises no_such_file
   \<and> send_request_safe absent_pipe ''IsAlive()'' fresh_client =
       (Inr [], \<lparr>print_errors = True, pipe = None\<rparr>, [Open])"
proof -
  have h1: "send_request absent_pipe ''IsAlive()'' fresh_client =
     (Inl (init_error no_such_file), \<lparr>print_errors = True, pipe = None\<rparr>, [Open])"
    by code_simp
  have h2: "is_OSError (init_error no_such_file)" by code_simp
  have h3: "pipe (fst fresh_client) = None" by code_simp
  have h4: "os_open absent_pipe (snd fresh_client) = Raises no_such_file" by code_simp
  show ?thesis
    using h1 h2 h3 h4
      channel_faults_absorbed_by_send_request_safe [of absent_pipe "''IsAlive()''" fresh_client
        "init_error no_such_file" "(\<lparr>print_errors = True, pipe = None\<rparr>, [Open])"]
    by simp
qed

text \<open>
  C2 as stated fails: with Soundpad not running, the public operations \<open>init\<close> and
  \<open>send_request\<close> raise \<open>FileNotFoundError\<close> across their boundary.
\<close>

theorem send_request_raises_counterexample:
  "fst (init absent_pipe fresh_client) =
     Inl (Exn FileNotFoundError
       ''Cannot connect to Soundpad. Make sure Soundpad is running and the remote control interface is enabled.'')
   \<and> fst (send_request absent_pipe ''IsAlive()'' fresh_client) =
     Inl (Exn FileNotFoundError
       ''Cannot connect to Soundpad. Make sure Soundpad is running and the remote control interface is enabled.'')"
  by code_simp

section \<open>The volume query\<close>

text \<open>
  C10. \<open>get_volume\<close> never returns a negative number: it returns a number that is
  at least 0, unless the reply cannot be decoded, in which case the decoder's exception
  passes through. Whenever the query fails - the response is empty (which includes every
  channel fault), starts with \<open>R\<close>, or does not parse as an integer -
  \<open>handle_numeric_response\<close> returns \<open>-1\<close> and \<open>get_volume\<close> returns 0, the
  very value it returns for a response that parses to 0.
\<close>

theorem get_volume_clamps_failure_to_zero:
  "(case fst (get_volume env cw) of Inr v \<Rightarrow> 0 \<le> v | Inl e \<Rightarrow> cls e = UnicodeDecodeError)
   \<and> (fst (send_request_safe env ''GetVolume()'' cw) = Inr r \<longrightarrow>
        r = [] \<or> startswith r ''R'' \<or> to_int env r = None \<longrightarrow>
        fst (handle_numeric_response env ''GetVolume()'' cw) = Inr (- 1)
        \<and> fst (get_volume env cw) = Inr 0)
   \<and> (fst (send_request_safe env ''GetVolume()'' cw) = Inr r \<longrightarrow>
        r \<noteq> [] \<longrightarrow> \<not> startswith r ''R'' \<longrightarrow> to_int env r = Some n \<longrightarrow>
        fst (get_volume env cw) = Inr (max 0 n))"
proof -
  have a: "case fst (get_volume env cw) of Inr v \<Rightarrow> 0 \<le> v | Inl e \<Rightarrow> cls e = UnicodeDecodeError"
    using handle_numeric_response_Inl [of env "''GetVolume()''" cw]
    by (auto simp: get_volume_def split: prod.splits sum.splits)
  have b: "fst (send_request_safe env ''GetVolume()'' cw) = Inr r \<longrightarrow>
        r = [] \<or> startswith r ''R'' \<or> to_int env r = None \<longrightarrow>
        fst (handle_numeric_response env ''GetVolume()'' cw) = Inr (- 1)
        \<and> fst (get_volume env cw) = Inr 0"
    by (auto simp: get_volume_def handle_numeric_response_def
             split: prod.splits sum.splits option.splits)
  have c: "fst (send_request_safe env ''GetVolume()'' cw) = Inr r \<longrightarrow>
        r \<noteq> [] \<longrightarrow> \<not> startswith r ''R'' \<longrightarrow> to_int env r = Some n \<longrightarrow>
        fst (get_volume env cw) = Inr (max 0 n)"
    by (auto simp: get_volume_def handle_numeric_response_def
             split: prod.splits sum.splits option.splits)
  from a b c show ?thesis by blast
qed

theorem get_volume_clamps_failure_to_zero_witness:
  "fst (send_request_safe (answering ''R-404'') ''GetVolume()'' fresh_client) = Inr ''R-404''
   \<and> startswith ''R-404'' ''R''
   \<and> fst (handle_numeric_response (answering ''R-404'') ''GetVolume()'' fresh_client) = Inr (- 1)
   \<and> fst (get_volume (answering ''R-404'') fresh_client) = Inr 0
   \<and> fst (get_volume (answering ''0'') fresh_client) = Inr 0"
proof -
  have h1: "fst (send_request_safe (answering ''R-404'') ''GetVolume()'' fresh_client) = Inr ''R-404''"
    by code_simp
  have h2: "startswith ''R-404'' ''R''" by code_simp
  have h3: "fst (get_volume (answering ''0'') fresh_client) = Inr 0" by code_simp
  show ?thesis
    using h1 h2 h3
      get_volume_clamps_failure_to_zero [of "answering ''R-404''" fresh_client "''R-404''"]
    by simp
qed

section \<open>Dispatch\<close>

lemma log_action_fields:
  "config_manager (log_action a c s d rt) = config_manager rt"
  "soundpad_client (log_action a c s d rt) = soundpad_client rt"
  "soundpad_connected (log_action a c s d rt) = soundpad_connected rt"
  "stats (log_action a c s d rt) = stats rt"
  by (simp_all add: log_action_def Let_def)

lemma is_Write_simps:
  "is_Write (Write fd bs)" "\<not> is_Write Open" "\<not> is_Write (Read fd n)" "\<not> is_Write (Close fd)"
  by (simp_all add: is_Write_def)

lemma init_world:
  "init env (c, w) = (r, c0, w0) \<Longrightarrow> w0 = w \<or> w0 = w @ [Open]"
  by (auto simp: init_cases split: option.splits os_result.splits)

lemma send_request_world:
  assumes i: "init env cw = (Inr u, c0, w0)" and fd: "pipe c0 = Some fd"
  shows "\<exists>rest. snd (snd (send_request env request cw)) = w0 @ Write fd (encode_utf8 request) # rest
               \<and> list_all (\<lambda>s. \<not> is_Write s) rest"
proof -
  from exchange_world [of "(c0, w0)" fd env request] fd
  obtain rest where r: "snd (snd (exchange env request (c0, w0))) = w0 @ Write fd (encode_utf8 request) # rest"
    and reads: "list_all (\<lambda>s. s = Read fd 1 \<or> s = Read fd 8192) rest"
    by auto
  from reads have nw: "list_all (\<lambda>s. \<not> is_Write s) rest"
    by (auto simp: list_all_iff is_Write_simps)
  obtain r2 c2 w2 where x: "exchange env request (c0, w0) = (r2, c2, w2)"
    by (cases "exchange env request (c0, w0)") auto
  from exchange_client [of env request "(c0, w0)"] x have c2: "c2 = c0" by simp
  from r x have w2: "w2 = w0 @ Write fd (encode_utf8 request) # rest" by simp
  show ?thesis
  proof (cases r2)
    case (Inr resp)
    with i x w2 nw show ?thesis by (simp add: send_request_def)
  next
    case (Inl e)
    show ?thesis
    proof (cases "is_OSError e")
      case False
      with i x w2 nw Inl show ?thesis by (simp add: send_request_def)
    next
      case True
      have "uninit (c2, w2) = (c0\<lparr>pipe := None\<rparr>, w0 @ Write fd (encode_utf8 request) # (rest @ [Close fd]))"
        using c2 w2 fd by (simp add: uninit_open)
      moreover have "list_all (\<lambda>s. \<not> is_Write s) (rest @ [Close fd])"
        using nw by (simp add: is_Write_simps)
      ultimately show ?thesis using i x Inl True
        by (simp add: send_request_def)
    qed
  qed
qed

lemma send_request_safe_world:
  "snd (snd (send_request_safe env request cw)) = snd (snd (send_request env request cw))"
proof -
  obtain r1 cw1 where s: "send_request env request cw = (r1, cw1)"
    by (cases "send_request env request cw") auto
  show ?thesis
  proof (cases r1)
    case (Inr resp)
    with s show ?thesis by (simp add: send_request_safe_def)
  next
    case (Inl e)
    show ?thesis
    proof (cases "is_OSError e")
      case True
      with s Inl have "pipe (fst cw1) = None" using send_request_Inl_OSError by blast
      with s Inl True show ?thesis by (simp add: send_request_safe_def uninit_closed)
    next
      case False
      with s Inl show ?thesis by (simp add: send_request_safe_def)
    qed
  qed
qed

lemma one_write_when_open:
  assumes i: "init env (c, w) = (Inr u, c0, w0)" and fd: "pipe c0 = Some fd"
  shows "filter is_Write (drop (length w) (snd (snd (send_request_safe env request (c, w))))) =
           [Write fd (encode_utf8 request)]"
proof -
  from send_request_world [OF i fd, of request] obtain rest where
    r: "snd (snd (send_request env request (c, w))) = w0 @ Write fd (encode_utf8 request) # rest"
    and nw: "list_all (\<lambda>s. \<not> is_Write s) rest" by blast
  have f: "filter is_Write rest = []" using nw by (auto simp: filter_empty_conv list_all_iff)
  from init_world [OF i] show ?thesis
    by (auto simp: send_request_safe_world r f is_Write_simps)
qed

lemma no_write_when_open_fails:
  assumes i: "init env (c, w) = (Inl e, cw0)"
  shows "filter is_Write (drop (length w) (snd (snd (send_request_safe env request (c, w))))) = []"
proof -
  from i have "snd (snd (send_request env request (c, w))) = w @ [Open]"
    by (auto simp: send_request_def init_cases split: option.splits os_result.splits)
  then show ?thesis by (simp add: send_request_safe_world is_Write_simps)
qed

lemma category_callback_gated:
  assumes "soundpad_client rt = None \<or> \<not> soundpad_connected rt"
  shows "category_callback env name config (rt, w) =
           (Inr (),
            log_action ''play_failed'' (Some name) False ''Not connected to Soundpad''
              (log_action ''debug'' (Some name) True (''Shortcut triggered for '' @ quoted name) rt),
            w)"
  using assms
  by (auto simp: category_callback_def Let_def log_action_fields split: option.splits)

lemma pause_callback_gated:
  assumes "soundpad_client rt = None \<or> \<not> soundpad_connected rt"
  shows "pause_callback env (rt, w) =
           (Inr (),
            log_action ''pause_failed'' None False ''Not connected to Soundpad''
              (log_action ''debug'' None True ''Pause/resume shortcut triggered'' rt),
            w)"
  using assms
  by (auto simp: pause_callback_def Let_def log_action_fields split: option.splits)

lemma category_try_world:
  "config_manager rt = Some cm \<Longrightarrow>
   snd (snd (category_try env name config client (rt, w))) =
   snd (snd (play_random_sound_from_category env (soundpad_category_id config)
               (play_on_speakers (settings cm)) (play_on_microphone (settings cm)) (client, w)))"
  by (simp add: category_try_def Let_def get_app_settings_def split: prod.splits sum.splits)

lemma category_callback_world:
  assumes "soundpad_client rt = Some client" "soundpad_connected rt" "config_manager rt = Some cm"
  shows "snd (snd (category_callback env name config (rt, w))) =
         snd (snd (play_random_sound_from_category env (soundpad_category_id config)
               (play_on_speakers (settings cm)) (play_on_microphone (settings cm)) (client, w)))"
proof -
  let ?rt = "log_action ''debug'' (Some name) True (''Shortcut triggered for '' @ quoted name) rt"
  have cm: "config_manager ?rt = Some cm" using assms by (simp add: log_action_fields)
  obtain r1 rt1 w1 where t: "category_try env name config client (?rt, w) = (r1, rt1, w1)"
    by (cases "category_try env name config client (?rt, w)") auto
  with category_try_world [OF cm, of env name config client w]
  have w1: "w1 = snd (snd (play_random_sound_from_category env (soundpad_category_id config)
               (play_on_speakers (settings cm)) (play_on_microphone (settings cm)) (client, w)))"
    by simp
  have "snd (snd (category_callback env name config (rt, w))) = w1"
    using assms t by (cases r1) (simp_all add: category_callback_def Let_def log_action_fields)
  with w1 show ?thesis by simp
qed

lemma pause_callback_world:
  assumes "soundpad_client rt = Some client" "soundpad_connected rt"
  shows "snd (snd (pause_callback env (rt, w))) =
         (case get_play_status env (client, w) of
            (Inl e, cw1) \<Rightarrow> snd cw1
          | (Inr status, cw1) \<Rightarrow> snd (snd (toggle_pause env cw1)))"
proof -
  let ?rt = "log_action ''debug'' None True ''Pause/resume shortcut triggered'' rt"
  obtain r1 rt1 w1 where t: "pause_try env client (?rt, w) = (r1, rt1, w1)"
    by (cases "pause_try env client (?rt, w)") auto
  have w1: "w1 = (case get_play_status env (client, w) of
            (Inl e, cw1) \<Rightarrow> snd cw1
          | (Inr status, cw1) \<Rightarrow> snd (snd (toggle_pause env cw1)))"
    using t by (auto simp: pause_try_def Let_def split: prod.splits sum.splits if_splits)
  have "snd (snd (pause_callback env (rt, w))) = w1"
    using assms t by (cases r1) (simp_all add: pause_callback_def Let_def log_action_fields)
  with w1 show ?thesis by simp
qed

text \<open>
  C1 (amended). A hotkey callback attempts its protocol call only when the runtime holds
  a client and the cached flag \<open>soundpad_connected\<close> is set. With no client or with
  the flag cleared, the category callback and the pause/resume callback log the failure
  \<open>Not connected to Soundpad\<close>, make no call on the channel and leave the statistics
  as they were. With a client, the flag set and the configuration loaded, the category
  callback makes the play-random call of the client, and the pause/resume callback the
  status query followed by the toggle.
\<close>

theorem dispatch_gated_by_cached_flag:
  "(soundpad_client rt = None \<or> \<not> soundpad_connected rt \<longrightarrow>
      category_callback env name config (rt, w) =
        (Inr (),
         log_action ''play_failed'' (Some name) False ''Not connected to Soundpad''
           (log_action ''debug'' (Some name) True (''Shortcut triggered for '' @ quoted name) rt),
         w)
      \<and> pause_callback env (rt, w) =
        (Inr (),
         log_action ''pause_failed'' None False ''Not connected to Soundpad''
           (log_action ''debug'' None True ''Pause/resume shortcut triggered'' rt),
         w)
      \<and> stats (fst (snd (category_callback env name config (rt, w)))) = stats rt
      \<and> stats (fst (snd (pause_callback env (rt, w)))) = stats rt)
   \<and> (soundpad_client rt = Some client \<longrightarrow> soundpad_connected rt \<longrightarrow>
        (config_manager rt = Some cm \<longrightarrow>
           snd (snd (category_callback env name config (rt, w))) =
           snd (snd (play_random_sound_from_category env (soundpad_category_id config)
                 (play_on_speakers (settings cm)) (play_on_microphone (settings cm)) (client, w))))
        \<and> snd (snd (pause_callback env (rt, w))) =
           (case get_play_status env (client, w) of
              (Inl e, cw1) \<Rightarrow> snd cw1
            | (Inr status, cw1) \<Rightarrow> snd (snd (toggle_pause env cw1))))"
proof -
  have a: "soundpad_client rt = None \<or> \<not> soundpad_connected rt \<longrightarrow>
      category_callback env name config (rt, w) =
        (Inr (),
         log_action ''play_failed'' (Some name) False ''Not connected to Soundpad''
           (log_action ''debug'' (Some name) True (''Shortcut triggered for '' @ quoted name) rt),
         w)
      \<and> pause_callback env (rt, w) =
        (Inr (),
         log_action ''pause_failed'' None False ''Not connected to Soundpad''
           (log_action ''debug'' None True ''Pause/resume shortcut triggered'' rt),
         w)
      \<and> stats (fst (snd (category_callback env name config (rt, w)))) = stats rt
      \<and> stats (fst (snd (pause_callback env (rt, w)))) = stats rt"
    using category_callback_gated [of rt env name config w] pause_callback_gated [of rt env w]
    by (simp add: log_action_fields)
  have b: "soundpad_client rt = Some client \<longrightarrow> soundpad_connected rt \<longrightarrow>
        (config_manager rt = Some cm \<longrightarrow>
           snd (snd (category_callback env name config (rt, w))) =
           snd (snd (play_random_sound_from_category env (soundpad_category_id config)
                 (play_on_speakers (settings cm)) (play_on_microphone (settings cm)) (client, w))))
        \<and> snd (snd (pause_callback env (rt, w))) =
           (case get_play_status env (client, w) of
              (Inl e, cw1) \<Rightarrow> snd cw1
            | (Inr status, cw1) \<Rightarrow> snd (snd (toggle_pause env cw1)))"
    using category_callback_world [of rt client cm env name config w]
      pause_callback_world [of rt client env w]
    by blast
  from a b show ?thesis by blast
qed

theorem dispatch_gated_by_cached_flag_witness:
  "\<not> soundpad_connected (example_runtime False)
   \<and> snd (snd (category_callback (answering ''R-200'') ''Laughs'' (example_category 5 [''alt'', ''1''])
                 (example_runtime False, [Open]))) = [Open]
   \<and> stats (fst (snd (category_callback (answering ''R-200'') ''Laughs''
                 (example_category 5 [''alt'', ''1'']) (example_runtime False, [Open]))))
       = stats (example_runtime False)
   \<and> soundpad_client (example_runtime True) = Some \<lparr>print_errors = True, pipe = Some 3\<rparr>
   \<and> soundpad_connected (example_runtime True)
   \<and> config_manager (example_runtime True) = Some example_config
   \<and> snd (snd (category_callback (answering ''R-200'') ''Laughs'' (example_category 5 [''alt'', ''1''])
                 (example_runtime True, [Open])))
       = [Open, Write 3 ''DoPlayRandomSoundFromCategory(5, true, true)'', Read 3 1, Read 3 8192]"
proof -
  have h1: "\<not> soundpad_connected (example_runtime False)" by code_simp
  have h2: "soundpad_client (example_runtime True) = Some \<lparr>print_errors = True, pipe = Some 3\<rparr>"
    by code_simp
  have h3: "soundpad_connected (example_runtime True)" by code_simp
  have h4: "config_manager (example_runtime True) = Some example_config" by code_simp
  have h5: "snd (snd (play_random_sound_from_category (answering ''R-200'')
                 (soundpad_category_id (example_category 5 [''alt'', ''1'']))
                 (play_on_speakers (settings example_config))
                 (play_on_microphone (settings example_config))
                 (\<lparr>print_errors = True, pipe = Some 3\<rparr>, [Open])))
       = [Open, Write 3 ''DoPlayRandomSoundFromCategory(5, true, true)'', Read 3 1, Read 3 8192]"
    by code_simp
  note g = dispatch_gated_by_cached_flag
         [of "example_runtime False" "answering ''R-200''" "''Laughs''"
             "example_category 5 [''alt'', ''1'']" "[Open]"]
  from g h1 have a1: "category_callback (answering ''R-200'') ''Laughs'' (example_category 5 [''alt'', ''1''])
                 (example_runtime False, [Open]) =
        (Inr (),
         log_action ''play_failed'' (Some ''Laughs'') False ''Not connected to Soundpad''
           (log_action ''debug'' (Some ''Laughs'') True (''Shortcut triggered for '' @ quoted ''Laughs'')
              (example_runtime False)),
         [Open])"
    by blast
  from g h1 have a2: "stats (fst (snd (category_callback (answering ''R-200'') ''Laughs''
                 (example_category 5 [''alt'', ''1'']) (example_runtime False, [Open]))))
       = stats (example_runtime False)"
    by blast
  have a3: "snd (snd (category_callback (answering ''R-200'') ''Laughs'' (example_category 5 [''alt'', ''1''])
                 (example_runtime False, [Open]))) = [Open]"
    unfolding a1 by simp
  note a = conjI [OF a3 a2]
  from dispatch_gated_by_cached_flag
         [of "example_runtime True" "answering ''R-200''" "''Laughs''"
             "example_category 5 [''alt'', ''1'']" "[Open]"
             "\<lparr>print_errors = True, pipe = Some 3\<rparr>" example_config] h2 h3 h4 h5
  have b: "snd (snd (category_callback (answering ''R-200'') ''Laughs'' (example_category 5 [''alt'', ''1''])
                 (example_runtime True, [Open])))
       = [Open, Write 3 ''DoPlayRandomSoundFromCategory(5, true, true)'', Read 3 1, Read 3 8192]"
    by simp
  from h1 h2 h3 h4 a b show ?thesis by blast
qed

text \<open>
  C1 as stated fails: with the flag stale (cleared while Soundpad answers again), the
  callback makes no call on the channel, although the same dispatch with the flag set
  plays the sound.
\<close>

theorem stale_flag_blocks_dispatch_counterexample:
  "snd (snd (category_callback (answering ''R-200'') ''Laughs'' (example_category 5 [''alt'', ''1''])
               (example_runtime False, [Open]))) = [Open]
   \<and> sounds_played (stats (fst (snd (category_callback (answering ''R-200'') ''Laughs''
               (example_category 5 [''alt'', ''1'']) (example_runtime False, [Open]))))) = 0
   \<and> sounds_played (stats (fst (snd (category_callback (answering ''R-200'') ''Laughs''
               (example_category 5 [''alt'', ''1'']) (example_runtime True, [Open]))))) = 1"
  by code_simp

lemma category_callback_result:
  assumes cl: "soundpad_client rt = Some client" and co: "soundpad_connected rt"
    and cm: "config_manager rt = Some cm"
    and sent: "send_request_safe env
                 (play_random_request (soundpad_category_id config)
                    (play_on_speakers (settings cm)) (play_on_microphone (settings cm)))
                 (client, w) = (rsp, client1, w1)"
  shows "fst (category_callback env name config (rt, w)) = Inr ()"
    and "snd (snd (category_callback env name config (rt, w))) = w1"
    and "soundpad_client (fst (snd (category_callback env name config (rt, w)))) = Some client1"
    and "stats (fst (snd (category_callback env name config (rt, w)))) =
           (if \<exists>r. rsp = Inr r \<and> is_success r
            then (stats rt)\<lparr>sounds_played := sounds_played (stats rt) + 1,
                             last_action := Some (''Played from '' @ quoted name)\<rparr>
            else (stats rt)\<lparr>errors := errors (stats rt) + 1\<rparr>)"
proof -
  let ?rt = "log_action ''debug'' (Some name) True (''Shortcut triggered for '' @ quoted name) rt"
  have f: "soundpad_client ?rt = Some client" "soundpad_connected ?rt" "config_manager ?rt = Some cm"
    "stats ?rt = stats rt"
    using cl co cm by (simp_all add: log_action_fields)
  have cc: "category_callback env name config (rt, w) =
          (case category_try env name config client (?rt, w) of
             (Inl e, rt1, w1) \<Rightarrow>
               (Inr (),
                log_action ''play_failed'' (Some name) False (msg e)
                  (rt1\<lparr>stats := (stats rt1)\<lparr>errors := errors (stats rt1) + 1\<rparr>\<rparr>),
                w1)
           | (Inr u, rt1, w1) \<Rightarrow> (Inr (), rt1, w1))"
    using f by (simp add: category_callback_def Let_def)
  show "fst (category_callback env name config (rt, w)) = Inr ()"
    unfolding cc by (simp split: prod.splits sum.splits)
  show "snd (snd (category_callback env name config (rt, w))) = w1"
    unfolding cc using f sent
    by (cases rsp)
       (simp_all add: category_try_def Let_def get_app_settings_def
          play_random_sound_from_category_def send_command_def)
  show "soundpad_client (fst (snd (category_callback env name config (rt, w)))) = Some client1"
    unfolding cc using f sent
    by (cases rsp)
       (simp_all add: category_try_def Let_def get_app_settings_def
          play_random_sound_from_category_def send_command_def log_action_fields)
  show "stats (fst (snd (category_callback env name config (rt, w)))) =
           (if \<exists>r. rsp = Inr r \<and> is_success r
            then (stats rt)\<lparr>sounds_played := sounds_played (stats rt) + 1,
                             last_action := Some (''Played from '' @ quoted name)\<rparr>
            else (stats rt)\<lparr>errors := errors (stats rt) + 1\<rparr>)"
    unfolding cc using f sent
    by (cases rsp)
       (simp_all add: category_try_def Let_def get_app_settings_def
          play_random_sound_from_category_def send_command_def log_action_fields)
qed

text \<open>
  C9 (amended). Let the runtime hold a client, the cached flag be set and the
  configuration be loaded. Dispatching the action of a category makes one call of the
  client, with the play-random request for the category's Soundpad id (for the id 5,
  \<open>DoPlayRandomSoundFromCategory(5, s, m)\<close>), and no exception leaves the callback.
  When the pipe is open or opens, exactly one request is written to it, that one; when
  it cannot be opened, none is. If the response is a success, \<open>sounds_played\<close>
  grows by 1 and \<open>errors\<close> is unchanged; on any other outcome \<open>errors\<close> grows by
  1 and \<open>sounds_played\<close> is unchanged.
\<close>

theorem category_dispatch_counts:
  assumes "soundpad_client rt = Some client" and "soundpad_connected rt"
    and "config_manager rt = Some cm"
    and "send_request_safe env
           (play_random_request (soundpad_category_id config)
              (play_on_speakers (settings cm)) (play_on_microphone (settings cm)))
           (client, w) = (rsp, client1, w1)"
  shows "fst (category_callback env name config (rt, w)) = Inr ()
       \<and> snd (snd (category_callback env name config (rt, w))) = w1
       \<and> (init env (client, w) = (Inr u, c0, w0) \<longrightarrow> pipe c0 = Some fd \<longrightarrow>
            filter is_Write (drop (length w) w1) =
              [Write fd (encode_utf8
                 (play_random_request (soundpad_category_id config)
                    (play_on_speakers (settings cm)) (play_on_microphone (settings cm))))])
       \<and> (init env (client, w) = (Inl e, cw0) \<longrightarrow> filter is_Write (drop (length w) w1) = [])
       \<and> ((\<exists>r. rsp = Inr r \<and> is_success r) \<longrightarrow>
            sounds_played (stats (fst (snd (category_callback env name config (rt, w))))) =
              sounds_played (stats rt) + 1
            \<and> errors (stats (fst (snd (category_callback env name config (rt, w))))) =
              errors (stats rt))
       \<and> (\<not> (\<exists>r. rsp = Inr r \<and> is_success r) \<longrightarrow>
            errors (stats (fst (snd (category_callback env name config (rt, w))))) =
              errors (stats rt) + 1
            \<and> sounds_played (stats (fst (snd (category_callback env name config (rt, w))))) =
              sounds_played (stats rt))"
proof -
  let ?request = "play_random_request (soundpad_category_id config)
                    (play_on_speakers (settings cm)) (play_on_microphone (settings cm))"
  note r = category_callback_result [OF assms, of name]
  have w1: "w1 = snd (snd (send_request_safe env ?request (client, w)))" using assms(4) by simp
  have one: "init env (client, w) = (Inr u, c0, w0) \<longrightarrow> pipe c0 = Some fd \<longrightarrow>
            filter is_Write (drop (length w) w1) = [Write fd (encode_utf8 ?request)]"
    unfolding w1 using one_write_when_open [of env client w u c0 w0 fd ?request] by blast
  have none: "init env (client, w) = (Inl e, cw0) \<longrightarrow> filter is_Write (drop (length w) w1) = []"
    unfolding w1 using no_write_when_open_fails [of env client w e cw0 ?request] by blast
  have ok: "(\<exists>r. rsp = Inr r \<and> is_success r) \<longrightarrow>
            sounds_played (stats (fst (snd (category_callback env name config (rt, w))))) =
              sounds_played (stats rt) + 1
            \<and> errors (stats (fst (snd (category_callback env name config (rt, w))))) =
              errors (stats rt)"
    unfolding r(4) by simp
  have bad: "\<not> (\<exists>r. rsp = Inr r \<and> is_success r) \<longrightarrow>
            errors (stats (fst (snd (category_callback env name config (rt, w))))) =
              errors (stats rt) + 1
            \<and> sounds_played (stats (fst (snd (category_callback env name config (rt, w))))) =
              sounds_played (stats rt)"
    unfolding r(4) by simp
  from r(1) r(2) one none ok bad show ?thesis by blast
qed

theorem category_dispatch_counts_witness:
  "soundpad_client (example_runtime True) = Some \<lparr>print_errors = True, pipe = Some 3\<rparr>
   \<and> soundpad_connected (example_runtime True)
   \<and> config_manager (example_runtime True) = Some example_config
   \<and> send_request_safe (answering ''R-200'')
         (play_random_request (soundpad_category_id (example_category 5 [''alt'', ''1'']))
            (play_on_speakers (settings example_config)) (play_on_microphone (settings example_config)))
         (\<lparr>print_errors = True, pipe = Some 3\<rparr>, [Open])
       = (Inr ''R-200'', \<lparr>print_errors = True, pipe = Some 3\<rparr>,
          [Open, Write 3 ''DoPlayRandomSoundFromCategory(5, true, true)'', Read 3 1, Read 3 8192])
   \<and> init (answering ''R-200'') (\<lparr>print_errors = True, pipe = Some 3\<rparr>, [Open])
       = (Inr (), \<lparr>print_errors = True, pipe = Some 3\<rparr>, [Open])
   \<and> pipe \<lparr>print_errors = True, pipe = Some 3\<rparr> = Some 3
   \<and> is_success ''R-200''
   \<and> encode_utf8
         (play_random_request (soundpad_category_id (example_category 5 [''alt'', ''1'']))
            (play_on_speakers (settings example_config)) (play_on_microphone (settings example_config)))
       = ''DoPlayRandomSoundFromCategory(5, true, true)''
   \<and> fst (category_callback (answering ''R-200'') ''Laughs'' (example_category 5 [''alt'', ''1''])
            (example_runtime True, [Open])) = Inr ()
   \<and> filter is_Write (drop (length [Open])
         [Open, Write 3 ''DoPlayRandomSoundFromCategory(5, true, true)'', Read 3 1, Read 3 8192])
       = [Write 3 (encode_utf8
            (play_random_request (soundpad_category_id (example_category 5 [''alt'', ''1'']))
               (play_on_speakers (settings example_config))
               (play_on_microphone (settings example_config))))]
   \<and> sounds_played (stats (fst (snd (category_callback (answering ''R-200'') ''Laughs''
         (example_category 5 [''alt'', ''1'']) (example_runtime True, [Open])))))
       = sounds_played (stats (example_runtime True)) + 1
   \<and> errors (stats (fst (snd (category_callback (answering ''R-200'') ''Laughs''
         (example_category 5 [''alt'', ''1'']) (example_runtime True, [Open])))))
       = errors (stats (example_runtime True))"
proof -
  have h1: "soundpad_client (example_runtime True) = Some \<lparr>print_errors = True, pipe = Some 3\<rparr>"
    by code_simp
  have h2: "soundpad_connected (example_runtime True)" by code_simp
  have h3: "config_manager (example_runtime True) = Some example_config" by code_simp
  have h4: "send_request_safe (answering ''R-200'')
         (play_random_request (soundpad_category_id (example_category 5 [''alt'', ''1'']))
            (play_on_speakers (settings example_config)) (play_on_microphone (settings example_config)))
         (\<lparr>print_errors = True, pipe = Some 3\<rparr>, [Open])
       = (Inr ''R-200'', \<lparr>print_errors = True, pipe = Some 3\<rparr>,
          [Open, Write 3 ''DoPlayRandomSoundFromCategory(5, true, true)'', Read 3 1, Read 3 8192])"
    by code_simp
  have h5: "is_success ''R-200''" by code_simp
  have h6: "init (answering ''R-200'') (\<lparr>print_errors = True, pipe = Some 3\<rparr>, [Open])
       = (Inr (), \<lparr>print_errors = True, pipe = Some 3\<rparr>, [Open])"
    by code_simp
  have h7: "pipe \<lparr>print_errors = True, pipe = Some 3\<rparr> = Some 3" by simp
  have h8: "encode_utf8
         (play_random_request (soundpad_category_id (example_category 5 [''alt'', ''1'']))
            (play_on_speakers (settings example_config)) (play_on_microphone (settings example_config)))
       = ''DoPlayRandomSoundFromCategory(5, true, true)''"
    by code_simp
  note t = category_dispatch_counts [OF h1 h2 h3 h4, of "''Laughs''" "()"
             "\<lparr>print_errors = True, pipe = Some 3\<rparr>" "[Open]" 3]
  from t have a: "fst (category_callback (answering ''R-200'') ''Laughs'' (example_category 5 [''alt'', ''1''])
            (example_runtime True, [Open])) = Inr ()"
    by blast
  from t h6 h7 have w: "filter is_Write (drop (length [Open])
         [Open, Write 3 ''DoPlayRandomSoundFromCategory(5, true, true)'', Read 3 1, Read 3 8192])
       = [Write 3 (encode_utf8
            (play_random_request (soundpad_category_id (example_category 5 [''alt'', ''1'']))
               (play_on_speakers (settings example_config))
               (play_on_microphone (settings example_config))))]"
    by blast
  from t h5 have b: "sounds_played (stats (fst (snd (category_callback (answering ''R-200'') ''Laughs''
         (example_category 5 [''alt'', ''1'']) (example_runtime True, [Open])))))
       = sounds_played (stats (example_runtime True)) + 1
     \<and> errors (stats (fst (snd (category_callback (answering ''R-200'') ''Laughs''
         (example_category 5 [''alt'', ''1'']) (example_runtime True, [Open])))))
       = errors (stats (example_runtime True))"
    by blast
  from h1 h2 h3 h4 h5 h6 h7 h8 a w b show ?thesis by blast
qed

text \<open>
  C9 as stated fails: with the cached flag cleared, dispatching the action of category 5
  writes no request at all, and Soundpad's error response changes neither counter.
\<close>

theorem no_request_when_flag_cleared_counterexample:
  "filter is_Write (snd (snd (category_callback (answering ''R-404'') ''Laughs''
       (example_category 5 [''alt'', ''1'']) (example_runtime False, [Open])))) = []
   \<and> errors (stats (fst (snd (category_callback (answering ''R-404'') ''Laughs''
       (example_category 5 [''alt'', ''1'']) (example_runtime False, [Open]))))) = 0
   \<and> sounds_played (stats (fst (snd (category_callback (answering ''R-404'') ''Laughs''
       (example_category 5 [''alt'', ''1'']) (example_runtime False, [Open]))))) = 0
   \<and> errors (stats (fst (snd (category_callback (answering ''R-404'') ''Laughs''
       (example_category 5 [''alt'', ''1'']) (example_runtime True, [Open]))))) = 1"
  by code_simp

section \<open>Interleaving\<close>

lemma step_Finished: "step env request (Finished r, cw) = (Finished r, cw)"
  by (cases cw) (simp add: step_def)

lemma steps_Finished: "(step env request ^^ n) (Finished r, cw) = (Finished r, cw)"
  by (induction n) (simp_all add: step_Finished)

lemma step_Failing:
  "step env request (Failing e, c, w) =
     (Finished (Inl (Exn OSError (''Failed to communicate with Soundpad: '' @ msg e))), uninit (c, w))"
  by (simp add: step_def split: prod.splits)

lemma steps_Failing:
  "(step env request ^^ Suc n) (Failing e, c, w) =
     (Finished (Inl (Exn OSError (''Failed to communicate with Soundpad: '' @ msg e))), uninit (c, w))"
proof -
  obtain c1 w1 where u: "uninit (c, w) = (c1, w1)" by (cases "uninit (c, w)")
  have "(step env request ^^ Suc n) (Failing e, c, w) =
        (step env request ^^ n) (step env request (Failing e, c, w))"
    by (simp only: funpow_Suc_right o_apply)
  also have "\<dots> = (Finished (Inl (Exn OSError (''Failed to communicate with Soundpad: '' @ msg e))), c1, w1)"
    by (simp add: step_Failing u steps_Finished)
  finally show ?thesis by (simp add: u)
qed












end
